theory Spec2Isabelle
  imports Main "HOL-Library.AList"
begin

section \<open>The Elasticsearch-to-OpenSearch provider (localstack/services/es/provider.py)\<close>

subsection \<open>Python values, exceptions and the object store\<close>

text \<open>
  The provider works on strings, lists and (typed) dicts. Strings and lists are never
  assigned to by the module, so they are values. Dicts are assigned to in place
  (\<^verbatim>\<open>result["InstanceType"] = ...\<close>, \<^verbatim>\<open>result.pop(...)\<close>) and
  \<^verbatim>\<open>cast\<close> is the identity at run time, so a dict is an object: a value refers
  to it by its address, and the store maps every address to the dict's items in
  insertion order.
\<close>

type_synonym addr = nat

datatype pyval =
    PNone
  | PStr string
  | PInt int
  | PBool bool
  | PList "pyval list"
  | PRef addr

type_synonym pydict = "(string \<times> pyval) list"

type_synonym store = "addr \<Rightarrow> pydict"

datatype error =
    AttributeError
  | KeyError
  | IndexError
  | TypeError
  | External string

text \<open>Sequencing of statements that may raise: the first exception ends the run.\<close>

definition err_bind :: "error + 'a \<Rightarrow> ('a \<Rightarrow> error + 'b) \<Rightarrow> error + 'b" where
  "err_bind m f = (case m of Inl e \<Rightarrow> Inl e | Inr x \<Rightarrow> f x)"

definition empty_store :: store where
  "empty_store = (\<lambda>a. [])"

text \<open>\<^verbatim>\<open>d.get(k)\<close>: the value bound to \<open>k\<close>, or None when the key is missing.\<close>

definition dict_get :: "pydict \<Rightarrow> string \<Rightarrow> pyval" where
  "dict_get d k = (case map_of d k of None \<Rightarrow> PNone | Some v \<Rightarrow> v)"

text \<open>\<^verbatim>\<open>d[k]\<close>: raises KeyError when the key is missing.\<close>

definition dict_item :: "pydict \<Rightarrow> string \<Rightarrow> error + pyval" where
  "dict_item d k = (case map_of d k of None \<Rightarrow> Inl KeyError | Some v \<Rightarrow> Inr v)"

text \<open>\<^verbatim>\<open>d[k] = v\<close> keeps the position of an existing key and appends a new one;
  \<^verbatim>\<open>d.pop(k, None)\<close> removes the key if it is there.\<close>

definition dict_set :: "pydict \<Rightarrow> string \<Rightarrow> pyval \<Rightarrow> pydict" where
  "dict_set d k v = AList.update k v d"

definition dict_pop :: "pydict \<Rightarrow> string \<Rightarrow> pydict" where
  "dict_pop d k = AList.delete k d"

text \<open>
  A method call \<^verbatim>\<open>x.startswith(..)\<close>, \<^verbatim>\<open>x.replace(..)\<close> or
  \<^verbatim>\<open>x.get(..)\<close> on a value of another type raises AttributeError. The two
  coercions below are used where the source makes such a call on a value read from a
  dict or passed as an argument.
\<close>

fun as_opt_str :: "pyval \<Rightarrow> error + string option" where
  "as_opt_str PNone = Inr None"
| "as_opt_str (PStr s) = Inr (Some s)"
| "as_opt_str _ = Inl AttributeError"

fun as_opt_dict :: "pyval \<Rightarrow> error + addr option" where
  "as_opt_dict PNone = Inr None"
| "as_opt_dict (PRef a) = Inr (Some a)"
| "as_opt_dict _ = Inl AttributeError"

definition of_opt_str :: "string option \<Rightarrow> pyval" where
  "of_opt_str s = (case s of None \<Rightarrow> PNone | Some x \<Rightarrow> PStr x)"

subsection \<open>The string methods the module calls\<close>

text \<open>A string is the list of its characters; the literals the module matches on
  (\<open>OpenSearch_\<close>, \<open>Elasticsearch_\<close>, \<open>elasticsearch\<close>, \<open>search\<close>) are ASCII.\<close>

text \<open>\<^verbatim>\<open>s.startswith(p)\<close>\<close>

definition startswith :: "string \<Rightarrow> string \<Rightarrow> bool" where
  "startswith s p = (take (length p) s = p)"

text \<open>\<^verbatim>\<open>s.split(c)\<close> for a separator of one character: the pieces between
  all occurrences of \<open>c\<close>; never an empty list.\<close>

fun split :: "string \<Rightarrow> char \<Rightarrow> string list" where
  "split [] c = [[]]"
| "split (x # xs) c =
     (if x = c then [] # split xs c
      else (case split xs c of [] \<Rightarrow> [[x]] | p # ps \<Rightarrow> (x # p) # ps))"

text \<open>\<^verbatim>\<open>xs[i]\<close> for an index \<open>i \<ge> 0\<close>: raises IndexError out of range.\<close>

definition list_item :: "'a list \<Rightarrow> nat \<Rightarrow> error + 'a" where
  "list_item xs i = (if i < length xs then Inr (xs ! i) else Inl IndexError)"

text \<open>\<^verbatim>\<open>s.replace(old, new)\<close>: scanning from the left, every occurrence of
  \<open>old\<close> that does not overlap an earlier replaced one is replaced by \<open>new\<close>. With an
  empty \<open>old\<close>, Python puts \<open>new\<close> before every character and at the end.\<close>

fun replace :: "string \<Rightarrow> string \<Rightarrow> string \<Rightarrow> string" where
  "replace s [] new = new @ concat (map (\<lambda>c. c # new) s)"
| "replace [] (a # old) new = []"
| "replace (c # cs) (a # old) new =
     (if startswith (c # cs) (a # old) then new @ replace (drop (length old) cs) (a # old) new
      else c # replace cs (a # old) new)"

subsection \<open>Version and instance-type translators\<close>

text \<open>\<^verbatim>\<open>_version_to_opensearch\<close> (lines 57-64); a function that falls off its end
  returns None.\<close>

definition version_to_opensearch :: "string option \<Rightarrow> string option" where
  "version_to_opensearch version =
     (case version of
        None \<Rightarrow> None
      | Some v \<Rightarrow>
          if startswith v ''OpenSearch_'' then Some v
          else Some (''Elasticsearch_'' @ v))"

text \<open>\<^verbatim>\<open>_version_from_opensearch\<close> (lines 67-74).\<close>

definition version_from_opensearch :: "string option \<Rightarrow> error + string option" where
  "version_from_opensearch version =
     (case version of
        None \<Rightarrow> Inr None
      | Some v \<Rightarrow>
          if startswith v ''Elasticsearch_''
          then (case list_item (split v CHR ''_'') 1 of
                  Inl e \<Rightarrow> Inl e
                | Inr r \<Rightarrow> Inr (Some r))
          else Inr (Some v))"

text \<open>\<^verbatim>\<open>_instancetype_to_opensearch\<close> (lines 77-79) and
  \<^verbatim>\<open>_instancetype_from_opensearch\<close> (lines 82-84).\<close>

definition instancetype_to_opensearch :: "string option \<Rightarrow> string option" where
  "instancetype_to_opensearch instance_type =
     (case instance_type of
        None \<Rightarrow> None
      | Some s \<Rightarrow> Some (replace s ''elasticsearch'' ''search''))"

definition instancetype_from_opensearch :: "string option \<Rightarrow> string option" where
  "instancetype_from_opensearch instance_type =
     (case instance_type of
        None \<Rightarrow> None
      | Some s \<Rightarrow> Some (replace s ''search'' ''elasticsearch''))"


subsection \<open>Cluster-config, domain-status and domain-config translators\<close>

text \<open>
  One statement \<^verbatim>\<open>result[k] = f(cluster_config.get(k))\<close>, where \<open>result\<close> and
  \<open>cluster_config\<close> are the same object at address \<open>a\<close>: the value is read (a
  value that is neither None nor a string makes \<open>f\<close> raise AttributeError), translated
  and written back to the same dict.
\<close>

definition assign_instancetype ::
  "(string option \<Rightarrow> string option) \<Rightarrow> store \<Rightarrow> addr \<Rightarrow> string \<Rightarrow> error + store" where
  "assign_instancetype f h a k =
     err_bind (as_opt_str (dict_get (h a) k))
       (\<lambda>s. Inr (h(a := dict_set (h a) k (of_opt_str (f s)))))"

text \<open>\<^verbatim>\<open>_clusterconfig_from_opensearch\<close> (lines 87-100): returns the updated store
  and the returned value, which is the argument object itself.\<close>

definition clusterconfig_from_opensearch :: "store \<Rightarrow> pyval \<Rightarrow> error + store \<times> pyval" where
  "clusterconfig_from_opensearch h cluster_config =
     err_bind (as_opt_dict cluster_config) (\<lambda>r.
       case r of
         None \<Rightarrow> Inr (h, PNone)
       | Some a \<Rightarrow>
           err_bind (assign_instancetype instancetype_from_opensearch h a ''InstanceType'') (\<lambda>h1.
           err_bind (assign_instancetype instancetype_from_opensearch h1 a ''DedicatedMasterType'') (\<lambda>h2.
           err_bind (assign_instancetype instancetype_from_opensearch h2 a ''WarmType'') (\<lambda>h3.
           Inr (h3, PRef a)))))"

text \<open>\<^verbatim>\<open>_clusterconfig_to_opensearch\<close> (lines 121-131).\<close>

definition clusterconfig_to_opensearch :: "store \<Rightarrow> pyval \<Rightarrow> error + store \<times> pyval" where
  "clusterconfig_to_opensearch h elasticsearch_cluster_config =
     err_bind (as_opt_dict elasticsearch_cluster_config) (\<lambda>r.
       case r of
         None \<Rightarrow> Inr (h, PNone)
       | Some a \<Rightarrow>
           err_bind (assign_instancetype instancetype_to_opensearch h a ''InstanceType'') (\<lambda>h1.
           err_bind (assign_instancetype instancetype_to_opensearch h1 a ''DedicatedMasterType'') (\<lambda>h2.
           err_bind (assign_instancetype instancetype_to_opensearch h2 a ''WarmType'') (\<lambda>h3.
           Inr (h3, PRef a)))))"

text \<open>\<^verbatim>\<open>_domainstatus_from_opensearch\<close> (lines 103-118). The nested cluster config
  is read after the version has been stored, and is itself translated in place.\<close>

definition domainstatus_from_opensearch :: "store \<Rightarrow> pyval \<Rightarrow> error + store \<times> pyval" where
  "domainstatus_from_opensearch h domain_status =
     err_bind (as_opt_dict domain_status) (\<lambda>r.
       case r of
         None \<Rightarrow> Inr (h, PNone)
       | Some a \<Rightarrow>
           err_bind (as_opt_str (dict_get (h a) ''EngineVersion'')) (\<lambda>engine_version.
           err_bind (version_from_opensearch engine_version) (\<lambda>version.
           let h1 = h(a := dict_set (h a) ''ElasticsearchVersion'' (of_opt_str version)) in
           err_bind (clusterconfig_from_opensearch h1 (dict_get (h1 a) ''ClusterConfig''))
             (\<lambda>(h2, cluster_config).
           let h3 = h2(a := dict_set (h2 a) ''ElasticsearchClusterConfig'' cluster_config);
               h4 = h3(a := dict_pop (h3 a) ''EngineVersion'');
               h5 = h4(a := dict_pop (h4 a) ''ClusterConfig'')
           in Inr (h5, PRef a)))))"

text \<open>\<^verbatim>\<open>_domainconfig_from_opensearch\<close> (lines 134-147): the same statements on a
  domain config.\<close>

definition domainconfig_from_opensearch :: "store \<Rightarrow> pyval \<Rightarrow> error + store \<times> pyval" where
  "domainconfig_from_opensearch h domain_config =
     err_bind (as_opt_dict domain_config) (\<lambda>r.
       case r of
         None \<Rightarrow> Inr (h, PNone)
       | Some a \<Rightarrow>
           err_bind (as_opt_str (dict_get (h a) ''EngineVersion'')) (\<lambda>engine_version.
           err_bind (version_from_opensearch engine_version) (\<lambda>version.
           let h1 = h(a := dict_set (h a) ''ElasticsearchVersion'' (of_opt_str version)) in
           err_bind (clusterconfig_from_opensearch h1 (dict_get (h1 a) ''ClusterConfig''))
             (\<lambda>(h2, cluster_config).
           let h3 = h2(a := dict_set (h2 a) ''ElasticsearchClusterConfig'' cluster_config);
               h4 = h3(a := dict_pop (h3 a) ''EngineVersion'');
               h5 = h4(a := dict_pop (h4 a) ''ClusterConfig'')
           in Inr (h5, PRef a)))))"

subsection \<open>The declared types of the translated fields\<close>

text \<open>
  The typed dicts \<^verbatim>\<open>ClusterConfig\<close>, \<^verbatim>\<open>DomainStatus\<close> and
  \<^verbatim>\<open>DomainConfig\<close> are declared in \<^verbatim>\<open>localstack.aws.api\<close>, outside this
  file. What the translators rely on is that the three instance types and the engine
  version are strings when present, and that the cluster config is a dict when present.
\<close>

fun is_opt_str :: "pyval \<Rightarrow> bool" where
  "is_opt_str PNone = True"
| "is_opt_str (PStr s) = True"
| "is_opt_str _ = False"

definition clusterconfig_typed :: "pydict \<Rightarrow> bool" where
  "clusterconfig_typed d =
     (is_opt_str (dict_get d ''InstanceType'') \<and>
      is_opt_str (dict_get d ''DedicatedMasterType'') \<and>
      is_opt_str (dict_get d ''WarmType''))"

fun opt_clusterconfig_typed :: "store \<Rightarrow> pyval \<Rightarrow> bool" where
  "opt_clusterconfig_typed h PNone = True"
| "opt_clusterconfig_typed h (PRef c) = clusterconfig_typed (h c)"
| "opt_clusterconfig_typed h _ = False"

definition domainstatus_typed :: "store \<Rightarrow> pydict \<Rightarrow> bool" where
  "domainstatus_typed h d =
     (is_opt_str (dict_get d ''EngineVersion'') \<and>
      opt_clusterconfig_typed h (dict_get d ''ClusterConfig''))"

fun opt_domainstatus_typed :: "store \<Rightarrow> pyval \<Rightarrow> bool" where
  "opt_domainstatus_typed h PNone = True"
| "opt_domainstatus_typed h (PRef a) = domainstatus_typed h (h a)"
| "opt_domainstatus_typed h _ = False"

subsection \<open>The collaborators: backend client and event publisher\<close>

text \<open>
  \<^verbatim>\<open>aws_stack.connect_to_service\<close> and \<^verbatim>\<open>event_publisher\<close> are imported from
  outside this file, so the client and the publisher are parameters. A client
  operation gets the keyword arguments, may allocate and change objects, and returns
  its response dict or raises. The publisher computes a hash and accepts an event;
  either call may raise.
\<close>

record opensearch_client =
  create_domain :: "store \<Rightarrow> pydict \<Rightarrow> error + store \<times> pydict"
  delete_domain :: "store \<Rightarrow> pydict \<Rightarrow> error + store \<times> pydict"
  list_versions :: "store \<Rightarrow> pydict \<Rightarrow> error + store \<times> pydict"

record event_publisher =
  EVENT_ES_CREATE_DOMAIN :: string
  EVENT_ES_DELETE_DOMAIN :: string
  get_hash :: "pyval \<Rightarrow> error + pyval"
  fire_event :: "string \<Rightarrow> pydict \<Rightarrow> error + unit"

text \<open>The statement under \<^verbatim>\<open># record event\<close> (lines 216-220 and 234-238): the
  payload is built first, then the event is fired; nothing catches what they raise.\<close>

definition record_event :: "event_publisher \<Rightarrow> string \<Rightarrow> pyval \<Rightarrow> error + unit" where
  "record_event pub event_type domain_name =
     err_bind (get_hash pub domain_name) (\<lambda>n. fire_event pub event_type [(''n'', n)])"

subsection \<open>The operations\<close>

record create_domain_request =
  domain_name :: pyval
  elasticsearch_version :: pyval
  elasticsearch_cluster_config :: pyval
  ebs_options :: pyval
  access_policies :: pyval
  snapshot_options :: pyval
  vpc_options :: pyval
  cognito_options :: pyval
  encryption_at_rest_options :: pyval
  node_to_node_encryption_options :: pyval
  advanced_options :: pyval
  log_publishing_options :: pyval
  domain_endpoint_options :: pyval
  advanced_security_options :: pyval
  auto_tune_options :: pyval
  tag_list :: pyval

text \<open>Lines 192-209 of \<^verbatim>\<open>create_elasticsearch_domain\<close>: the dict literal, given the
  two translated values.\<close>

definition create_domain_all_kwargs ::
  "create_domain_request \<Rightarrow> pyval \<Rightarrow> pyval \<Rightarrow> pydict" where
  "create_domain_all_kwargs req engine_version cluster_config =
     [(''DomainName'', domain_name req),
      (''EngineVersion'', engine_version),
      (''ClusterConfig'', cluster_config),
      (''EBSOptions'', ebs_options req),
      (''AccessPolicies'', access_policies req),
      (''SnapshotOptions'', snapshot_options req),
      (''VPCOptions'', vpc_options req),
      (''CognitoOptions'', cognito_options req),
      (''EncryptionAtRestOptions'', encryption_at_rest_options req),
      (''NodeToNodeEncryptionOptions'', node_to_node_encryption_options req),
      (''AdvancedOptions'', advanced_options req),
      (''LogPublishingOptions'', log_publishing_options req),
      (''DomainEndpointOptions'', domain_endpoint_options req),
      (''AdvancedSecurityOptions'', advanced_security_options req),
      (''AutoTuneOptions'', auto_tune_options req),
      (''TagList'', tag_list req)]"

text \<open>Lines 192-212: the two values are translated while the literal is built, then
  the items whose value is None are filtered out. The result is what the backend is
  called with.\<close>

definition create_domain_kwargs :: "store \<Rightarrow> create_domain_request \<Rightarrow> error + store \<times> pydict" where
  "create_domain_kwargs h req =
     err_bind (as_opt_str (elasticsearch_version req)) (\<lambda>version.
     err_bind (clusterconfig_to_opensearch h (elasticsearch_cluster_config req))
       (\<lambda>(h1, cluster_config).
     Inr (h1, filter (\<lambda>(key, value). value \<noteq> PNone)
                (create_domain_all_kwargs req
                   (of_opt_str (version_to_opensearch version)) cluster_config))))"

text \<open>\<^verbatim>\<open>EsProvider.create_elasticsearch_domain\<close> (lines 170-223).\<close>

definition create_elasticsearch_domain ::
  "opensearch_client \<Rightarrow> event_publisher \<Rightarrow> store \<Rightarrow> create_domain_request
     \<Rightarrow> error + store \<times> pydict" where
  "create_elasticsearch_domain client pub h req =
     err_bind (create_domain_kwargs h req) (\<lambda>(h1, kwargs).
     err_bind (create_domain client h1 kwargs) (\<lambda>(h2, response).
     err_bind (dict_item response ''DomainStatus'') (\<lambda>domain_status.
     err_bind (record_event pub (EVENT_ES_CREATE_DOMAIN pub) (domain_name req)) (\<lambda>_.
     err_bind (domainstatus_from_opensearch h2 domain_status) (\<lambda>(h3, status).
     Inr (h3, [(''DomainStatus'', status)]))))))"

text \<open>\<^verbatim>\<open>EsProvider.delete_elasticsearch_domain\<close> (lines 225-241); \<open>name\<close> is
  the argument \<^verbatim>\<open>domain_name\<close>.\<close>

definition delete_elasticsearch_domain ::
  "opensearch_client \<Rightarrow> event_publisher \<Rightarrow> store \<Rightarrow> pyval \<Rightarrow> error + store \<times> pydict" where
  "delete_elasticsearch_domain client pub h name =
     err_bind (delete_domain client h [(''DomainName'', name)]) (\<lambda>(h1, response).
     err_bind (dict_item response ''DomainStatus'') (\<lambda>domain_status.
     err_bind (record_event pub (EVENT_ES_DELETE_DOMAIN pub) name) (\<lambda>_.
     err_bind (domainstatus_from_opensearch h1 domain_status) (\<lambda>(h2, status).
     Inr (h2, [(''DomainStatus'', status)])))))"

text \<open>
  Iterating over a value: a list gives its elements, a string its characters, a dict
  its keys; None, numbers and booleans raise TypeError.
\<close>

fun py_iter :: "store \<Rightarrow> pyval \<Rightarrow> error + pyval list" where
  "py_iter h (PList xs) = Inr xs"
| "py_iter h (PStr s) = Inr (map (\<lambda>c. PStr [c]) s)"
| "py_iter h (PRef a) = Inr (map (\<lambda>(k, v). PStr k) (h a))"
| "py_iter h _ = Inl TypeError"

text \<open>A list comprehension whose body may raise.\<close>

fun map_err :: "('a \<Rightarrow> error + 'b) \<Rightarrow> 'a list \<Rightarrow> error + 'b list" where
  "map_err f [] = Inr []"
| "map_err f (x # xs) =
     (case f x of
        Inl e \<Rightarrow> Inl e
      | Inr y \<Rightarrow> (case map_err f xs of Inl e \<Rightarrow> Inl e | Inr ys \<Rightarrow> Inr (y # ys)))"

text \<open>
  \<^verbatim>\<open>d.get(key)\<close> where the key is any value: the keys of a response are strings, so
  a key that is a string is looked up, a dict or a list is unhashable (TypeError), and
  any other key is not in the dict.
\<close>

fun dict_get_key :: "pydict \<Rightarrow> pyval \<Rightarrow> error + pyval" where
  "dict_get_key d (PStr k) = Inr (dict_get d k)"
| "dict_get_key d (PRef a) = Inl TypeError"
| "dict_get_key d (PList xs) = Inl TypeError"
| "dict_get_key d _ = Inr PNone"

text \<open>\<^verbatim>\<open>EsProvider.list_elasticsearch_versions\<close> (lines 278-297); line 296 reads
  \<^verbatim>\<open>versions.get(next_token)\<close>, with the request's argument as the key.\<close>

definition list_elasticsearch_versions ::
  "opensearch_client \<Rightarrow> store \<Rightarrow> pyval \<Rightarrow> pyval \<Rightarrow> error + store \<times> pydict" where
  "list_elasticsearch_versions client h max_results next_token =
     (let kwargs = filter (\<lambda>(key, value). value \<noteq> PNone)
                     [(''MaxResults'', max_results), (''NextToken'', next_token)] in
      err_bind (list_versions client h kwargs) (\<lambda>(h1, versions).
      err_bind (dict_item versions ''Versions'') (\<lambda>vs.
      err_bind (py_iter h1 vs) (\<lambda>items.
      err_bind (map_err (\<lambda>version.
                  err_bind (as_opt_str version) (\<lambda>s.
                  err_bind (version_from_opensearch s) (\<lambda>r. Inr (of_opt_str r)))) items)
        (\<lambda>elasticsearch_versions.
      err_bind (dict_get_key versions next_token) (\<lambda>token.
      Inr (h1, [(''ElasticsearchVersions'', PList elasticsearch_versions),
                (''NextToken'', token)])))))))"

subsection \<open>Compatible-versions list translator\<close>









subsection \<open>What "every occurrence replaced" means\<close>

text \<open>
  The specification describes the instance-type translators as replacing every
  occurrence of one substring by another. \<open>occurs old s\<close> says that \<open>old\<close> is a
  substring of \<open>s\<close>. \<open>replaced_every old new s t\<close> follows the specification's words:
  either \<open>old\<close> does not occur in \<open>s\<close> and \<open>t\<close> is \<open>s\<close>, or \<open>s\<close> is cut at its
  leftmost occurrence of \<open>old\<close> (none starts earlier), that occurrence is replaced by
  \<open>new\<close>, and the rest of \<open>s\<close> is treated alike.
\<close>

fun occurs :: "string \<Rightarrow> string \<Rightarrow> bool" where
  "occurs old [] = (old = [])"
| "occurs old (c # cs) = (startswith (c # cs) old \<or> occurs old cs)"

inductive replaced_every :: "string \<Rightarrow> string \<Rightarrow> string \<Rightarrow> string \<Rightarrow> bool"
  for old new :: string where
  no_occurrence: "\<not> occurs old s \<Longrightarrow> replaced_every old new s s"
| first_occurrence:
    "\<not> occurs old (p @ butlast old) \<Longrightarrow> replaced_every old new r t \<Longrightarrow>
     replaced_every old new (p @ old @ r) (p @ new @ t)"

subsection \<open>Stores, collaborators and requests used in the examples\<close>


text \<open>A store with a domain status at address 1 that has neither an engine version nor
  a cluster config.\<close>

definition bare_store :: store where
  "bare_store = empty_store(1 := [(''DomainName'', PStr ''logs'')])"

text \<open>A backend whose answers repeat the domain name and the engine version it was
  given, in a new status object at address 1, and that knows two versions.\<close>

definition example_client :: opensearch_client where
  "example_client =
     \<lparr>create_domain = (\<lambda>h kwargs.
        Inr (h(1 := [(''DomainName'', dict_get kwargs ''DomainName''),
                     (''EngineVersion'', dict_get kwargs ''EngineVersion'')]),
             [(''DomainStatus'', PRef 1)])),
      delete_domain = (\<lambda>h kwargs.
        Inr (h(1 := [(''DomainName'', dict_get kwargs ''DomainName''),
                     (''EngineVersion'', PStr ''OpenSearch_1.0''),
                     (''Deleted'', PBool True)]),
             [(''DomainStatus'', PRef 1)])),
      list_versions = (\<lambda>h kwargs.
        Inr (h, [(''Versions'', PList [PStr ''Elasticsearch_7.10'', PStr ''OpenSearch_1.0'']),
                 (''NextToken'', PStr ''page-2'')]))\<rparr>"

text \<open>A publisher that accepts every event, and one whose sink raises.\<close>

definition example_publisher :: event_publisher where
  "example_publisher =
     \<lparr>EVENT_ES_CREATE_DOMAIN = ''es.cd'', EVENT_ES_DELETE_DOMAIN = ''es.dd'',
      get_hash = (\<lambda>name. Inr (PStr ''0'')),
      fire_event = (\<lambda>event_type payload. Inr ())\<rparr>"

definition failing_publisher :: event_publisher where
  "failing_publisher =
     \<lparr>EVENT_ES_CREATE_DOMAIN = ''es.cd'', EVENT_ES_DELETE_DOMAIN = ''es.dd'',
      get_hash = (\<lambda>name. Inr (PStr ''0'')),
      fire_event = (\<lambda>event_type payload. Inl (External ''event sink unreachable''))\<rparr>"

text \<open>A request that names a domain and leaves every option unset, and the same
  request with version 7.10.\<close>

definition minimal_request :: create_domain_request where
  "minimal_request =
     \<lparr>domain_name = PStr ''logs'', elasticsearch_version = PNone,
      elasticsearch_cluster_config = PNone, ebs_options = PNone, access_policies = PNone,
      snapshot_options = PNone, vpc_options = PNone, cognito_options = PNone,
      encryption_at_rest_options = PNone, node_to_node_encryption_options = PNone,
      advanced_options = PNone, log_publishing_options = PNone,
      domain_endpoint_options = PNone, advanced_security_options = PNone,
      auto_tune_options = PNone, tag_list = PNone\<rparr>"

definition versioned_request :: create_domain_request where
  "versioned_request = minimal_request\<lparr>elasticsearch_version := PStr ''7.10''\<rparr>"

text \<open>A store with a legacy cluster config at address 0 that gives a node count and no
  instance types, and the request that names a domain and passes that cluster config.\<close>

definition sizing_store :: store where
  "sizing_store = empty_store(0 := [(''InstanceCount'', PInt 1)])"

definition clustered_request :: create_domain_request where
  "clustered_request = minimal_request\<lparr>elasticsearch_cluster_config := PRef 0\<rparr>"

text \<open>A backend that does not accept None values (the comment on line 211): it raises
  when the cluster config it is called with binds a key to None.\<close>

definition strict_client :: opensearch_client where
  "strict_client =
     example_client
       \<lparr>create_domain := (\<lambda>h kwargs.
          case dict_get kwargs ''ClusterConfig'' of
            PRef c \<Rightarrow>
              if PNone \<in> snd ` set (h c)
              then Inl (External ''ParamValidationError: None in ClusterConfig'')
              else create_domain example_client h kwargs
          | _ \<Rightarrow> create_domain example_client h kwargs)\<rparr>"

section \<open>Properties\<close>

subsection \<open>Splitting\<close>

lemma split_nonempty: "split s c \<noteq> []"
  by (induction s) (auto split: list.splits)

lemma split_length_pos: "0 < length (split s c)"
  using split_nonempty [of s c] by simp

lemma split_no_sep: "c \<notin> set s \<Longrightarrow> split s c = [s]"
  by (induction s) auto

lemma split_at_first:
  "c \<notin> set p \<Longrightarrow> split (p @ c # r) c = p # split r c"
  by (induction p) auto

lemma startswith_append: "startswith (p @ r) p"
  by (simp add: startswith_def)

lemma startswith_decompose: "startswith s p \<Longrightarrow> s = p @ drop (length p) s"
  unfolding startswith_def by (metis append_take_drop_id)

lemma split_prefix:
  "split (''Elasticsearch_'' @ r) CHR ''_'' = ''Elasticsearch'' # split r CHR ''_''"
  using split_at_first [of "CHR ''_''" "''Elasticsearch''" r] by simp

lemma split_hd: "split s c = takeWhile (\<lambda>x. x \<noteq> c) s # tl (split s c)"
  by (induction s) (auto split: list.splits simp: split_nonempty)

subsection \<open>The legacy-direction version translator\<close>

text \<open>What line 72 returns on a prefixed version: the part of the remainder before its
  first underscore.\<close>

lemma version_from_opensearch_prefixed:
  "version_from_opensearch (Some (''Elasticsearch_'' @ r)) =
     Inr (Some (takeWhile (\<lambda>x. x \<noteq> CHR ''_'') r))"
proof -
  have "startswith (''Elasticsearch_'' @ r) ''Elasticsearch_''"
    by (rule startswith_append)
  moreover have "list_item (split (''Elasticsearch_'' @ r) CHR ''_'') 1 =
      Inr (takeWhile (\<lambda>x. x \<noteq> CHR ''_'') r)"
    unfolding split_prefix list_item_def
    using split_hd [of r "CHR ''_''"] split_length_pos [of r "CHR ''_''"]
    by (simp, metis nth_Cons_0)
  ultimately show ?thesis
    by (simp add: version_from_opensearch_def)
qed

lemma version_from_opensearch_never_raises:
  "\<exists>r. version_from_opensearch version = Inr r"
proof (cases version)
  case None
  then show ?thesis by (simp add: version_from_opensearch_def)
next
  case (Some v)
  show ?thesis
  proof (cases "startswith v ''Elasticsearch_''")
    case True
    then obtain r where "v = ''Elasticsearch_'' @ r"
      using startswith_decompose by blast
    then show ?thesis using Some version_from_opensearch_prefixed by blast
  next
    case False
    then show ?thesis using Some by (simp add: version_from_opensearch_def)
  qed
qed

lemma version_from_opensearch_unprefixed:
  "version_from_opensearch None = Inr None"
  "\<not> startswith v ''Elasticsearch_'' \<Longrightarrow> version_from_opensearch (Some v) = Inr (Some v)"
  by (simp_all add: version_from_opensearch_def)

lemma version_roundtrip_without_underscore:
  assumes "\<not> startswith v ''OpenSearch_''" and "CHR ''_'' \<notin> set v"
  shows "version_from_opensearch (version_to_opensearch (Some v)) = Inr (Some v)"
proof -
  have "takeWhile (\<lambda>x. x \<noteq> CHR ''_'') v = v"
    using assms(2) by (auto simp: takeWhile_eq_all_conv)
  then show ?thesis
    using assms(1) version_from_opensearch_prefixed [of v]
    by (simp add: version_to_opensearch_def)
qed

text \<open>
  C10. The legacy-direction version translator is total: for an input that starts with
  \<open>Elasticsearch_\<close>, splitting on the underscore gives at least two parts, so the
  element at index 1 exists and the translator returns a value instead of raising.
\<close>

theorem version_from_opensearch_index_in_range:
  assumes "startswith v ''Elasticsearch_''"
  shows "2 \<le> length (split v CHR ''_'') \<and>
         list_item (split v CHR ''_'') 1 = Inr (split v CHR ''_'' ! 1) \<and>
         (\<exists>r. version_from_opensearch (Some v) = Inr (Some r))"
proof -
  from assms obtain r where v: "v = ''Elasticsearch_'' @ r"
    using startswith_decompose by blast
  have len: "2 \<le> length (split v CHR ''_'')"
    unfolding v split_prefix by (cases "split r CHR ''_''") (simp_all add: split_nonempty)
  then have "list_item (split v CHR ''_'') 1 = Inr (split v CHR ''_'' ! 1)"
    by (simp add: list_item_def)
  moreover have "\<exists>r. version_from_opensearch (Some v) = Inr (Some r)"
    unfolding v version_from_opensearch_prefixed by blast
  ultimately show ?thesis using len by blast
qed

theorem version_from_opensearch_index_in_range_witness:
  "startswith ''Elasticsearch_7.10'' ''Elasticsearch_'' \<and>
   2 \<le> length (split ''Elasticsearch_7.10'' CHR ''_'') \<and>
   version_from_opensearch (Some ''Elasticsearch_7.10'') = Inr (Some ''7.10'')"
proof -
  have h: "startswith ''Elasticsearch_7.10'' ''Elasticsearch_''"
    by (simp add: startswith_def)
  show ?thesis
    using h version_from_opensearch_index_in_range [OF h]
    by (simp add: version_from_opensearch_def list_item_def startswith_def)
qed

text \<open>
  C1. Translating a legacy version to the current dialect and back should give the
  version again. On \<open>7_10\<close>, which starts with neither prefix, the code gives \<open>7\<close>:
  line 72 keeps only what lies between the first and the second underscore.
\<close>

theorem version_roundtrip_loses_after_underscore:
  "\<not> startswith ''7_10'' ''OpenSearch_'' \<and> \<not> startswith ''7_10'' ''Elasticsearch_'' \<and>
   version_to_opensearch (Some ''7_10'') = Some ''Elasticsearch_7_10'' \<and>
   version_from_opensearch (version_to_opensearch (Some ''7_10'')) = Inr (Some ''7'')"
  by (simp add: version_from_opensearch_def version_to_opensearch_def list_item_def
      startswith_def)

text \<open>
  C2. On a version that starts with \<open>Elasticsearch_\<close> the translator should return the
  whole remainder. On \<open>Elasticsearch_7_10\<close> the remainder is \<open>7_10\<close> and the code
  returns \<open>7\<close>.
\<close>

theorem version_from_opensearch_cuts_remainder:
  "startswith ''Elasticsearch_7_10'' ''Elasticsearch_'' \<and>
   drop (length ''Elasticsearch_'') ''Elasticsearch_7_10'' = ''7_10'' \<and>
   version_from_opensearch (Some ''Elasticsearch_7_10'') = Inr (Some ''7'')"
  by (simp add: version_from_opensearch_def list_item_def startswith_def)

subsection \<open>Replacing every occurrence\<close>

lemma startswith_length: "startswith s p \<Longrightarrow> length p \<le> length s"
proof -
  assume "startswith s p"
  then have "length (take (length p) s) = length p"
    by (simp only: startswith_def)
  then show ?thesis by simp
qed

lemma occurs_Nil: "occurs [] s"
  by (cases s) (simp_all add: startswith_def)

lemma occurs_length: "occurs old s \<Longrightarrow> length old \<le> length s"
  by (induction s) (auto dest: startswith_length)

lemma startswith_long:
  "length old \<le> length xs \<Longrightarrow> startswith (xs @ ys) old = startswith xs old"
  by (simp add: startswith_def)

lemma startswith_butlast:
  assumes "old \<noteq> []"
  shows "startswith (c # p @ old @ r) old = startswith (c # p @ butlast old) old"
proof -
  have "c # p @ old @ r = (c # p @ butlast old) @ (last old # r)"
    using assms by simp
  moreover have "length old \<le> length (c # p @ butlast old)"
    by simp
  ultimately show ?thesis
    using startswith_long by metis
qed

lemma replace_no_occurrence:
  "\<not> occurs old s \<Longrightarrow> replace s old new = s"
  by (induction s old new rule: replace.induct) (auto simp: occurs_Nil)

lemma replace_first_occurrence:
  assumes "\<not> occurs (a # old) (p @ butlast (a # old))"
  shows "replace (p @ (a # old) @ r) (a # old) new = p @ new @ replace r (a # old) new"
  using assms
proof (induction p)
  case Nil
  have "startswith (a # old @ r) (a # old)"
    using startswith_append [of "a # old" r] by simp
  then show ?case by simp
next
  case (Cons c p)
  have "\<not> startswith (c # p @ butlast (a # old)) (a # old)"
    and rest: "\<not> occurs (a # old) (p @ butlast (a # old))"
    using Cons.prems by auto
  then have "\<not> startswith (c # p @ (a # old) @ r) (a # old)"
    using startswith_butlast [of "a # old" c p r] by simp
  then show ?case using Cons.IH [OF rest] by simp
qed

lemma replaced_every_sound:
  "replaced_every (a # old) new s t \<Longrightarrow> t = replace s (a # old) new"
proof (induction rule: replaced_every.induct)
  case (no_occurrence s)
  then show ?case by (simp add: replace_no_occurrence)
next
  case (first_occurrence p r t)
  have "replace (p @ (a # old) @ r) (a # old) new = p @ new @ replace r (a # old) new"
    using first_occurrence.hyps(1) by (rule replace_first_occurrence)
  then show ?case using first_occurrence.IH by simp
qed

lemma replaced_every_Cons:
  assumes "\<not> startswith (c # cs) (a # old)" and "replaced_every (a # old) new cs t"
  shows "replaced_every (a # old) new (c # cs) (c # t)"
  using assms(2)
proof (cases rule: replaced_every.cases)
  case no_occurrence
  then have "\<not> occurs (a # old) (c # cs)" using assms(1) by simp
  then show ?thesis using no_occurrence replaced_every.no_occurrence by simp
next
  case (first_occurrence p r t')
  have "\<not> startswith (c # p @ butlast (a # old)) (a # old)"
    using assms(1) first_occurrence(1) startswith_butlast [of "a # old" c p r] by simp
  then have "\<not> occurs (a # old) ((c # p) @ butlast (a # old))"
    using first_occurrence(3) by simp
  then have "replaced_every (a # old) new ((c # p) @ (a # old) @ r) ((c # p) @ new @ t')"
    using first_occurrence(4) replaced_every.first_occurrence by blast
  then show ?thesis using first_occurrence by simp
qed

lemma replaced_every_complete:
  "replaced_every (a # old) new s (replace s (a # old) new)"
proof (induction s "a # old" new rule: replace.induct)
  case (2 new)
  show ?case using replaced_every.no_occurrence [of "a # old" "[]" new] by simp
next
  case (3 c cs new)
  show ?case
  proof (cases "startswith (c # cs) (a # old)")
    case True
    let ?r = "drop (length old) cs"
    have eq: "c # cs = [] @ (a # old) @ ?r"
      using True startswith_decompose [of "c # cs" "a # old"] by simp
    have "\<not> occurs (a # old) ([] @ butlast (a # old))"
      using occurs_length [of "a # old" "butlast (a # old)"] by auto
    then have "replaced_every (a # old) new ([] @ (a # old) @ ?r)
        ([] @ new @ replace ?r (a # old) new)"
      using "3.hyps"(1) [OF True] replaced_every.first_occurrence by blast
    then show ?thesis using True eq by simp
  next
    case False
    then show ?thesis using "3.hyps"(2) replaced_every_Cons by simp
  qed
qed

text \<open>
  C8. On a string \<open>s\<close> the current-direction instance-type translator returns \<open>s\<close> with
  every occurrence of \<open>elasticsearch\<close> replaced by \<open>search\<close>, and the legacy-direction
  translator returns \<open>s\<close> with every occurrence of \<open>search\<close> replaced by
  \<open>elasticsearch\<close>: the value each returns is the one string that \<open>replaced_every\<close>
  relates to \<open>s\<close>. Absent input gives absent output in both directions.
\<close>

theorem instancetype_translators_replace_every_occurrence:
  "instancetype_to_opensearch None = None \<and>
   instancetype_from_opensearch None = None \<and>
   (instancetype_to_opensearch (Some s) = Some t
      \<longleftrightarrow> replaced_every ''elasticsearch'' ''search'' s t) \<and>
   (instancetype_from_opensearch (Some s) = Some t
      \<longleftrightarrow> replaced_every ''search'' ''elasticsearch'' s t)"
  unfolding instancetype_to_opensearch_def instancetype_from_opensearch_def
  using replaced_every_sound replaced_every_complete by auto

theorem instancetype_translators_replace_every_occurrence_witness:
  "instancetype_to_opensearch (Some ''m5.large.elasticsearch'') = Some ''m5.large.search'' \<and>
   replaced_every ''elasticsearch'' ''search'' ''m5.large.elasticsearch'' ''m5.large.search'' \<and>
   instancetype_from_opensearch (Some ''m5.large.search'') = Some ''m5.large.elasticsearch'' \<and>
   replaced_every ''search'' ''elasticsearch'' ''m5.large.search'' ''m5.large.elasticsearch''"
proof -
  have to: "instancetype_to_opensearch (Some ''m5.large.elasticsearch'') = Some ''m5.large.search''"
    by (simp add: instancetype_to_opensearch_def startswith_def)
  have frm: "instancetype_from_opensearch (Some ''m5.large.search'') = Some ''m5.large.elasticsearch''"
    by (simp add: instancetype_from_opensearch_def startswith_def)
  show ?thesis
    using to frm
      instancetype_translators_replace_every_occurrence
        [of "''m5.large.elasticsearch''" "''m5.large.search''"]
      instancetype_translators_replace_every_occurrence
        [of "''m5.large.search''" "''m5.large.elasticsearch''"]
    by blast
qed

subsection \<open>Dicts and the store\<close>

lemma err_bind_Inl: "err_bind (Inl e) f = Inl e"
  by (simp add: err_bind_def)

lemma err_bind_Inr: "err_bind (Inr x) f = f x"
  by (simp add: err_bind_def)

lemma err_bind_eq_Inr:
  "err_bind m f = Inr y \<longleftrightarrow> (\<exists>x. m = Inr x \<and> f x = Inr y)"
  by (cases m) (simp_all add: err_bind_def)

lemma map_of_dict_set: "map_of (dict_set d k v) = (map_of d)(k \<mapsto> v)"
  by (simp add: dict_set_def update_conv')

lemma map_of_dict_pop: "map_of (dict_pop d k) = (map_of d)(k := None)"
  by (simp add: dict_pop_def delete_conv')

lemma dict_get_set: "dict_get (dict_set d k v) k' = (if k' = k then v else dict_get d k')"
  by (simp add: dict_get_def map_of_dict_set)

lemma dict_get_pop: "dict_get (dict_pop d k) k' = (if k' = k then PNone else dict_get d k')"
  by (simp add: dict_get_def map_of_dict_pop)

lemma is_opt_str_iff: "is_opt_str v \<longleftrightarrow> (\<exists>s. as_opt_str v = Inr s)"
  by (cases v) simp_all

lemma as_opt_str_Inr: "as_opt_str v = Inr s \<Longrightarrow> v = of_opt_str s"
  by (cases v) (auto simp: of_opt_str_def)

lemma is_opt_str_of_opt_str: "is_opt_str (of_opt_str s)"
  by (cases s) (simp_all add: of_opt_str_def)

lemma as_opt_dict_Inr: "as_opt_dict v = Inr r \<longleftrightarrow> (v = PNone \<and> r = None) \<or> (\<exists>a. v = PRef a \<and> r = Some a)"
  by (cases v) auto

lemma assign_instancetype_Inr:
  "assign_instancetype f h a k = Inr h' \<longleftrightarrow>
     (\<exists>s. as_opt_str (dict_get (h a) k) = Inr s \<and>
          h' = h(a := dict_set (h a) k (of_opt_str (f s))))"
  by (auto simp: assign_instancetype_def err_bind_eq_Inr)

lemma assign_instancetype_frame:
  assumes "assign_instancetype f h a k = Inr h'"
  shows "b \<noteq> a \<Longrightarrow> h' b = h b"
    and "k' \<noteq> k \<Longrightarrow> map_of (h' a) k' = map_of (h a) k'"
    and "k' \<noteq> k \<Longrightarrow> dict_get (h' a) k' = dict_get (h a) k'"
    and "\<exists>s. as_opt_str (dict_get (h a) k) = Inr s \<and> map_of (h' a) k = Some (of_opt_str (f s))"
  using assms by (auto simp: assign_instancetype_Inr map_of_dict_set dict_get_set)

lemma assign_instancetype_typed:
  "is_opt_str (dict_get (h a) k) \<Longrightarrow> \<exists>h'. assign_instancetype f h a k = Inr h'"
  by (auto simp: assign_instancetype_Inr is_opt_str_iff)

lemma assign_thrice:
  assumes 1: "assign_instancetype f h a ''InstanceType'' = Inr h1"
    and 2: "assign_instancetype f h1 a ''DedicatedMasterType'' = Inr h2"
    and 3: "assign_instancetype f h2 a ''WarmType'' = Inr h3"
  shows "\<forall>b. b \<noteq> a \<longrightarrow> h3 b = h b"
    and "\<forall>k. k \<notin> {''InstanceType'', ''DedicatedMasterType'', ''WarmType''}
           \<longrightarrow> map_of (h3 a) k = map_of (h a) k"
    and "\<forall>k \<in> {''InstanceType'', ''DedicatedMasterType'', ''WarmType''}.
           \<exists>s. as_opt_str (dict_get (h a) k) = Inr s \<and> map_of (h3 a) k = Some (of_opt_str (f s))"
proof -
  show "\<forall>b. b \<noteq> a \<longrightarrow> h3 b = h b"
    using assign_instancetype_frame(1) [OF 1] assign_instancetype_frame(1) [OF 2]
      assign_instancetype_frame(1) [OF 3] by simp
  show "\<forall>k. k \<notin> {''InstanceType'', ''DedicatedMasterType'', ''WarmType''}
           \<longrightarrow> map_of (h3 a) k = map_of (h a) k"
    using assign_instancetype_frame(2) [OF 1] assign_instancetype_frame(2) [OF 2]
      assign_instancetype_frame(2) [OF 3] by simp
  have a1: "\<exists>s. as_opt_str (dict_get (h a) ''InstanceType'') = Inr s \<and>
      map_of (h3 a) ''InstanceType'' = Some (of_opt_str (f s))"
    using assign_instancetype_frame(4) [OF 1]
      assign_instancetype_frame(2) [OF 2, of "''InstanceType''"]
      assign_instancetype_frame(2) [OF 3, of "''InstanceType''"] by simp
  have a2: "\<exists>s. as_opt_str (dict_get (h a) ''DedicatedMasterType'') = Inr s \<and>
      map_of (h3 a) ''DedicatedMasterType'' = Some (of_opt_str (f s))"
    using assign_instancetype_frame(4) [OF 2]
      assign_instancetype_frame(3) [OF 1, of "''DedicatedMasterType''"]
      assign_instancetype_frame(2) [OF 3, of "''DedicatedMasterType''"] by simp
  have a3: "\<exists>s. as_opt_str (dict_get (h a) ''WarmType'') = Inr s \<and>
      map_of (h3 a) ''WarmType'' = Some (of_opt_str (f s))"
    using assign_instancetype_frame(4) [OF 3]
      assign_instancetype_frame(3) [OF 1, of "''WarmType''"]
      assign_instancetype_frame(3) [OF 2, of "''WarmType''"] by simp
  show "\<forall>k \<in> {''InstanceType'', ''DedicatedMasterType'', ''WarmType''}.
           \<exists>s. as_opt_str (dict_get (h a) k) = Inr s \<and> map_of (h3 a) k = Some (of_opt_str (f s))"
    using a1 a2 a3 by blast
qed

lemma assign_thrice_typed:
  assumes "clusterconfig_typed (h a)"
  shows "\<exists>h1 h2 h3. assign_instancetype f h a ''InstanceType'' = Inr h1 \<and>
     assign_instancetype f h1 a ''DedicatedMasterType'' = Inr h2 \<and>
     assign_instancetype f h2 a ''WarmType'' = Inr h3"
proof -
  obtain h1 where 1: "assign_instancetype f h a ''InstanceType'' = Inr h1"
    using assms assign_instancetype_typed unfolding clusterconfig_typed_def by blast
  have "is_opt_str (dict_get (h1 a) ''DedicatedMasterType'')"
    using assms assign_instancetype_frame(3) [OF 1, of "''DedicatedMasterType''"]
    unfolding clusterconfig_typed_def by simp
  then obtain h2 where 2: "assign_instancetype f h1 a ''DedicatedMasterType'' = Inr h2"
    using assign_instancetype_typed by blast
  have "is_opt_str (dict_get (h2 a) ''WarmType'')"
    using assms assign_instancetype_frame(3) [OF 1, of "''WarmType''"]
      assign_instancetype_frame(3) [OF 2, of "''WarmType''"]
    unfolding clusterconfig_typed_def by simp
  then obtain h3 where 3: "assign_instancetype f h2 a ''WarmType'' = Inr h3"
    using assign_instancetype_typed by blast
  show ?thesis using 1 2 3 by blast
qed

lemma clusterconfig_from_opensearch_Ref:
  "clusterconfig_from_opensearch h (PRef a) = Inr (h', r) \<longleftrightarrow>
     (\<exists>h1 h2. assign_instancetype instancetype_from_opensearch h a ''InstanceType'' = Inr h1 \<and>
        assign_instancetype instancetype_from_opensearch h1 a ''DedicatedMasterType'' = Inr h2 \<and>
        assign_instancetype instancetype_from_opensearch h2 a ''WarmType'' = Inr h' \<and>
        r = PRef a)"
  by (auto simp: clusterconfig_from_opensearch_def err_bind_eq_Inr err_bind_Inr)

lemma clusterconfig_to_opensearch_Ref:
  "clusterconfig_to_opensearch h (PRef a) = Inr (h', r) \<longleftrightarrow>
     (\<exists>h1 h2. assign_instancetype instancetype_to_opensearch h a ''InstanceType'' = Inr h1 \<and>
        assign_instancetype instancetype_to_opensearch h1 a ''DedicatedMasterType'' = Inr h2 \<and>
        assign_instancetype instancetype_to_opensearch h2 a ''WarmType'' = Inr h' \<and>
        r = PRef a)"
  by (auto simp: clusterconfig_to_opensearch_def err_bind_eq_Inr err_bind_Inr)

lemma clusterconfig_from_opensearch_None:
  "clusterconfig_from_opensearch h PNone = Inr (h, PNone)"
  by (simp add: clusterconfig_from_opensearch_def err_bind_Inr)

lemma clusterconfig_to_opensearch_None:
  "clusterconfig_to_opensearch h PNone = Inr (h, PNone)"
  by (simp add: clusterconfig_to_opensearch_def err_bind_Inr)

lemma clusterconfig_from_opensearch_Inr:
  assumes "clusterconfig_from_opensearch h v = Inr (h', r)"
  shows "r = v" and "v \<noteq> PRef b \<Longrightarrow> h' b = h b"
    and "k \<notin> {''InstanceType'', ''DedicatedMasterType'', ''WarmType''}
           \<Longrightarrow> map_of (h' b) k = map_of (h b) k"
proof -
  consider "v = PNone" | a where "v = PRef a"
    using assms by (cases v) (simp_all add: clusterconfig_from_opensearch_def err_bind_Inl)
  then have "r = v \<and> (v \<noteq> PRef b \<longrightarrow> h' b = h b) \<and>
      (k \<notin> {''InstanceType'', ''DedicatedMasterType'', ''WarmType''}
         \<longrightarrow> map_of (h' b) k = map_of (h b) k)"
  proof cases
    case 1
    then show ?thesis using assms by (simp add: clusterconfig_from_opensearch_None)
  next
    case 2
    then obtain h1 h2 where
      s: "assign_instancetype instancetype_from_opensearch h a ''InstanceType'' = Inr h1"
         "assign_instancetype instancetype_from_opensearch h1 a ''DedicatedMasterType'' = Inr h2"
         "assign_instancetype instancetype_from_opensearch h2 a ''WarmType'' = Inr h'"
      and r: "r = PRef a"
      using assms by (auto simp: clusterconfig_from_opensearch_Ref)
    show ?thesis
      using assign_thrice(1) [OF s] assign_thrice(2) [OF s] r 2
      by (cases "b = a") auto
  qed
  then show "r = v" and "v \<noteq> PRef b \<Longrightarrow> h' b = h b"
    and "k \<notin> {''InstanceType'', ''DedicatedMasterType'', ''WarmType''}
           \<Longrightarrow> map_of (h' b) k = map_of (h b) k"
    by blast+
qed


lemma clusterconfig_from_opensearch_typed:
  assumes "opt_clusterconfig_typed h v"
  shows "\<exists>h'. clusterconfig_from_opensearch h v = Inr (h', v)"
proof (cases v)
  case PNone
  then show ?thesis by (simp add: clusterconfig_from_opensearch_None)
next
  case (PRef a)
  then have "clusterconfig_typed (h a)" using assms by simp
  then show ?thesis
    using assign_thrice_typed [of h a instancetype_from_opensearch] PRef
    by (auto simp: clusterconfig_from_opensearch_Ref)
qed (use assms in simp_all)

lemma clusterconfig_to_opensearch_typed:
  assumes "opt_clusterconfig_typed h v"
  shows "\<exists>h'. clusterconfig_to_opensearch h v = Inr (h', v)"
proof (cases v)
  case PNone
  then show ?thesis by (simp add: clusterconfig_to_opensearch_None)
next
  case (PRef a)
  then have "clusterconfig_typed (h a)" using assms by simp
  then show ?thesis
    using assign_thrice_typed [of h a instancetype_to_opensearch] PRef
    by (auto simp: clusterconfig_to_opensearch_Ref)
qed (use assms in simp_all)

subsection \<open>Domain status and domain config\<close>

lemma domainconfig_is_domainstatus:
  "domainconfig_from_opensearch = domainstatus_from_opensearch"
  by (intro ext) (simp add: domainconfig_from_opensearch_def domainstatus_from_opensearch_def)

lemma domainstatus_from_opensearch_None:
  "domainstatus_from_opensearch h PNone = Inr (h, PNone)"
  by (simp add: domainstatus_from_opensearch_def err_bind_Inr)

lemma domainstatus_from_opensearch_Ref:
  "domainstatus_from_opensearch h (PRef a) = Inr (h', r) \<longleftrightarrow>
     (\<exists>ev v h2 cc.
        as_opt_str (dict_get (h a) ''EngineVersion'') = Inr ev \<and>
        version_from_opensearch ev = Inr v \<and>
        clusterconfig_from_opensearch
          (h(a := dict_set (h a) ''ElasticsearchVersion'' (of_opt_str v)))
          (dict_get (h a) ''ClusterConfig'') = Inr (h2, cc) \<and>
        h' = h2(a := dict_pop (dict_pop (dict_set (h2 a) ''ElasticsearchClusterConfig'' cc)
                                 ''EngineVersion'') ''ClusterConfig'') \<and>
        r = PRef a)"
  by (auto simp: domainstatus_from_opensearch_def err_bind_eq_Inr err_bind_Inr Let_def
      dict_get_set)

lemma domainstatus_from_opensearch_Inr:
  assumes "domainstatus_from_opensearch h (PRef a) = Inr (h', r)"
  shows "r = PRef a"
    and "b \<noteq> a \<Longrightarrow> dict_get (h a) ''ClusterConfig'' \<noteq> PRef b \<Longrightarrow> h' b = h b"
    and "map_of (h' a) ''EngineVersion'' = None"
    and "map_of (h' a) ''ClusterConfig'' = None"
    and "\<exists>ev v. as_opt_str (dict_get (h a) ''EngineVersion'') = Inr ev \<and>
           version_from_opensearch ev = Inr v \<and>
           map_of (h' a) ''ElasticsearchVersion'' = Some (of_opt_str v)"
    and "map_of (h' a) ''ElasticsearchClusterConfig'' = Some (dict_get (h a) ''ClusterConfig'')"
proof -
  obtain ev v h2 cc where
    ev: "as_opt_str (dict_get (h a) ''EngineVersion'') = Inr ev"
    and v: "version_from_opensearch ev = Inr v"
    and cc: "clusterconfig_from_opensearch
          (h(a := dict_set (h a) ''ElasticsearchVersion'' (of_opt_str v)))
          (dict_get (h a) ''ClusterConfig'') = Inr (h2, cc)"
    and h': "h' = h2(a := dict_pop (dict_pop (dict_set (h2 a) ''ElasticsearchClusterConfig'' cc)
                                 ''EngineVersion'') ''ClusterConfig'')"
    and r: "r = PRef a"
    using assms unfolding domainstatus_from_opensearch_Ref by blast
  let ?h1 = "h(a := dict_set (h a) ''ElasticsearchVersion'' (of_opt_str v))"
  show "r = PRef a" by (rule r)
  show "b \<noteq> a \<Longrightarrow> dict_get (h a) ''ClusterConfig'' \<noteq> PRef b \<Longrightarrow> h' b = h b"
    using clusterconfig_from_opensearch_Inr(2) [OF cc, of b] h' by simp
  show "map_of (h' a) ''EngineVersion'' = None"
    by (simp add: h' map_of_dict_pop)
  show "map_of (h' a) ''ClusterConfig'' = None"
    by (simp add: h' map_of_dict_pop)
  have "map_of (h2 a) ''ElasticsearchVersion'' = map_of (?h1 a) ''ElasticsearchVersion''"
    using clusterconfig_from_opensearch_Inr(3) [OF cc, of "''ElasticsearchVersion''" a] by simp
  then have "map_of (h' a) ''ElasticsearchVersion'' = Some (of_opt_str v)"
    by (simp add: h' map_of_dict_pop map_of_dict_set)
  then show "\<exists>ev v. as_opt_str (dict_get (h a) ''EngineVersion'') = Inr ev \<and>
           version_from_opensearch ev = Inr v \<and>
           map_of (h' a) ''ElasticsearchVersion'' = Some (of_opt_str v)"
    using ev v by blast
  have "cc = dict_get (h a) ''ClusterConfig''"
    using clusterconfig_from_opensearch_Inr(1) [OF cc] .
  then show "map_of (h' a) ''ElasticsearchClusterConfig'' = Some (dict_get (h a) ''ClusterConfig'')"
    by (simp add: h' map_of_dict_pop map_of_dict_set)
qed

lemma opt_clusterconfig_typed_update:
  assumes "opt_clusterconfig_typed h v"
    and "k \<notin> {''InstanceType'', ''DedicatedMasterType'', ''WarmType''}"
  shows "opt_clusterconfig_typed (h(a := dict_set (h a) k x)) v"
  using assms by (cases v) (auto simp: clusterconfig_typed_def dict_get_set)

lemma domainstatus_from_opensearch_typed:
  assumes "domainstatus_typed h (h a)"
  shows "\<exists>h'. domainstatus_from_opensearch h (PRef a) = Inr (h', PRef a)"
proof -
  obtain ev where ev: "as_opt_str (dict_get (h a) ''EngineVersion'') = Inr ev"
    using assms unfolding domainstatus_typed_def is_opt_str_iff by blast
  obtain v where v: "version_from_opensearch ev = Inr v"
    using version_from_opensearch_never_raises by blast
  let ?h1 = "h(a := dict_set (h a) ''ElasticsearchVersion'' (of_opt_str v))"
  have "opt_clusterconfig_typed ?h1 (dict_get (h a) ''ClusterConfig'')"
    using assms unfolding domainstatus_typed_def
    by (intro opt_clusterconfig_typed_update) simp_all
  then obtain h2 where "clusterconfig_from_opensearch ?h1 (dict_get (h a) ''ClusterConfig'')
      = Inr (h2, dict_get (h a) ''ClusterConfig'')"
    using clusterconfig_from_opensearch_typed by blast
  then show ?thesis
    unfolding domainstatus_from_opensearch_Ref using ev v by blast
qed

text \<open>
  C9. A cluster config in which one of \<open>InstanceType\<close>, \<open>DedicatedMasterType\<close>,
  \<open>WarmType\<close> is absent (missing, or bound to None) is translated, in either direction,
  to a dict that binds that key to None. A domain status or domain config whose
  \<open>EngineVersion\<close> (or \<open>ClusterConfig\<close>) is absent is translated to a dict that binds
  \<open>ElasticsearchVersion\<close> (or \<open>ElasticsearchClusterConfig\<close>) to None. The inputs are
  well typed, and the translators return.
\<close>

theorem absent_fields_translate_to_explicit_None:
  "(clusterconfig_typed (h a) \<and>
      k \<in> {''InstanceType'', ''DedicatedMasterType'', ''WarmType''} \<and>
      dict_get (h a) k = PNone \<longrightarrow>
        (\<exists>h'. clusterconfig_from_opensearch h (PRef a) = Inr (h', PRef a) \<and>
              map_of (h' a) k = Some PNone) \<and>
        (\<exists>h'. clusterconfig_to_opensearch h (PRef a) = Inr (h', PRef a) \<and>
              map_of (h' a) k = Some PNone)) \<and>
   (domainstatus_typed h (h a) \<and> dict_get (h a) ''EngineVersion'' = PNone \<longrightarrow>
        (\<exists>h'. domainstatus_from_opensearch h (PRef a) = Inr (h', PRef a) \<and>
              map_of (h' a) ''ElasticsearchVersion'' = Some PNone) \<and>
        (\<exists>h'. domainconfig_from_opensearch h (PRef a) = Inr (h', PRef a) \<and>
              map_of (h' a) ''ElasticsearchVersion'' = Some PNone)) \<and>
   (domainstatus_typed h (h a) \<and> dict_get (h a) ''ClusterConfig'' = PNone \<longrightarrow>
        (\<exists>h'. domainstatus_from_opensearch h (PRef a) = Inr (h', PRef a) \<and>
              map_of (h' a) ''ElasticsearchClusterConfig'' = Some PNone) \<and>
        (\<exists>h'. domainconfig_from_opensearch h (PRef a) = Inr (h', PRef a) \<and>
              map_of (h' a) ''ElasticsearchClusterConfig'' = Some PNone))"
proof (intro conjI impI; (elim conjE)?)
  assume typed: "clusterconfig_typed (h a)"
    and k: "k \<in> {''InstanceType'', ''DedicatedMasterType'', ''WarmType''}"
    and absent: "dict_get (h a) k = PNone"
  show "\<exists>h'. clusterconfig_from_opensearch h (PRef a) = Inr (h', PRef a) \<and>
      map_of (h' a) k = Some PNone"
  proof -
    obtain h1 h2 h3 where
      s: "assign_instancetype instancetype_from_opensearch h a ''InstanceType'' = Inr h1"
         "assign_instancetype instancetype_from_opensearch h1 a ''DedicatedMasterType'' = Inr h2"
         "assign_instancetype instancetype_from_opensearch h2 a ''WarmType'' = Inr h3"
      using assign_thrice_typed [of h a instancetype_from_opensearch] typed by blast
    have "map_of (h3 a) k = Some PNone"
      using assign_thrice(3) [OF s] k absent
      by (auto simp: instancetype_from_opensearch_def of_opt_str_def)
    then show ?thesis using s by (auto simp: clusterconfig_from_opensearch_Ref)
  qed
  show "\<exists>h'. clusterconfig_to_opensearch h (PRef a) = Inr (h', PRef a) \<and>
      map_of (h' a) k = Some PNone"
  proof -
    obtain h1 h2 h3 where
      s: "assign_instancetype instancetype_to_opensearch h a ''InstanceType'' = Inr h1"
         "assign_instancetype instancetype_to_opensearch h1 a ''DedicatedMasterType'' = Inr h2"
         "assign_instancetype instancetype_to_opensearch h2 a ''WarmType'' = Inr h3"
      using assign_thrice_typed [of h a instancetype_to_opensearch] typed by blast
    have "map_of (h3 a) k = Some PNone"
      using assign_thrice(3) [OF s] k absent
      by (auto simp: instancetype_to_opensearch_def of_opt_str_def)
    then show ?thesis using s by (auto simp: clusterconfig_to_opensearch_Ref)
  qed
next
  assume typed: "domainstatus_typed h (h a)"
    and absent: "dict_get (h a) ''EngineVersion'' = PNone"
  obtain h' where r: "domainstatus_from_opensearch h (PRef a) = Inr (h', PRef a)"
    using domainstatus_from_opensearch_typed [OF typed] by blast
  have v: "map_of (h' a) ''ElasticsearchVersion'' = Some PNone"
    using domainstatus_from_opensearch_Inr(5) [OF r] absent
    by (auto simp: version_from_opensearch_def of_opt_str_def)
  show "\<exists>h'. domainstatus_from_opensearch h (PRef a) = Inr (h', PRef a) \<and>
      map_of (h' a) ''ElasticsearchVersion'' = Some PNone"
    using r v by blast
  show "\<exists>h'. domainconfig_from_opensearch h (PRef a) = Inr (h', PRef a) \<and>
      map_of (h' a) ''ElasticsearchVersion'' = Some PNone"
    unfolding domainconfig_is_domainstatus using r v by blast
next
  assume typed: "domainstatus_typed h (h a)"
    and absent: "dict_get (h a) ''ClusterConfig'' = PNone"
  obtain h' where r: "domainstatus_from_opensearch h (PRef a) = Inr (h', PRef a)"
    using domainstatus_from_opensearch_typed [OF typed] by blast
  have v: "map_of (h' a) ''ElasticsearchClusterConfig'' = Some PNone"
    using domainstatus_from_opensearch_Inr(6) [OF r] absent by simp
  show "\<exists>h'. domainstatus_from_opensearch h (PRef a) = Inr (h', PRef a) \<and>
      map_of (h' a) ''ElasticsearchClusterConfig'' = Some PNone"
    using r v by blast
  show "\<exists>h'. domainconfig_from_opensearch h (PRef a) = Inr (h', PRef a) \<and>
      map_of (h' a) ''ElasticsearchClusterConfig'' = Some PNone"
    unfolding domainconfig_is_domainstatus using r v by blast
qed

theorem absent_fields_translate_to_explicit_None_witness:
  "clusterconfig_typed (bare_store 1) \<and>
   dict_get (bare_store 1) ''WarmType'' = PNone \<and>
   domainstatus_typed bare_store (bare_store 1) \<and>
   dict_get (bare_store 1) ''EngineVersion'' = PNone \<and>
   dict_get (bare_store 1) ''ClusterConfig'' = PNone \<and>
   (\<exists>h'. clusterconfig_from_opensearch bare_store (PRef 1) = Inr (h', PRef 1) \<and>
         map_of (h' 1) ''WarmType'' = Some PNone) \<and>
   (\<exists>h'. clusterconfig_to_opensearch bare_store (PRef 1) = Inr (h', PRef 1) \<and>
         map_of (h' 1) ''WarmType'' = Some PNone) \<and>
   (\<exists>h'. domainstatus_from_opensearch bare_store (PRef 1) = Inr (h', PRef 1) \<and>
         map_of (h' 1) ''ElasticsearchVersion'' = Some PNone) \<and>
   (\<exists>h'. domainconfig_from_opensearch bare_store (PRef 1) = Inr (h', PRef 1) \<and>
         map_of (h' 1) ''ElasticsearchClusterConfig'' = Some PNone)"
proof -
  have hyps: "clusterconfig_typed (bare_store 1)"
    "dict_get (bare_store 1) ''WarmType'' = PNone"
    "domainstatus_typed bare_store (bare_store 1)"
    "dict_get (bare_store 1) ''EngineVersion'' = PNone"
    "dict_get (bare_store 1) ''ClusterConfig'' = PNone"
    by (simp_all add: bare_store_def empty_store_def clusterconfig_typed_def
        domainstatus_typed_def dict_get_def)
  show ?thesis
    using hyps absent_fields_translate_to_explicit_None [of bare_store 1 "''WarmType''"]
    by simp
qed


subsection \<open>Translation in place\<close>



lemma domainstatus_in_place:
  assumes "opt_domainstatus_typed h v"
  shows "\<exists>h'. domainstatus_from_opensearch h v = Inr (h', v) \<and>
     (\<forall>b. v \<noteq> PRef b \<and> (\<forall>a. v = PRef a \<longrightarrow> dict_get (h a) ''ClusterConfig'' \<noteq> PRef b)
          \<longrightarrow> h' b = h b) \<and>
     (\<forall>a. v = PRef a \<longrightarrow>
          map_of (h' a) ''EngineVersion'' = None \<and>
          map_of (h' a) ''ClusterConfig'' = None \<and>
          map_of (h' a) ''ElasticsearchClusterConfig'' = Some (dict_get (h a) ''ClusterConfig'') \<and>
          map_of (h' a) ''ElasticsearchVersion'' \<noteq> None)"
proof (cases v)
  case PNone
  then show ?thesis by (simp add: domainstatus_from_opensearch_None)
next
  case (PRef a)
  then have "domainstatus_typed h (h a)" using assms by simp
  then obtain h' where r: "domainstatus_from_opensearch h (PRef a) = Inr (h', PRef a)"
    using domainstatus_from_opensearch_typed by blast
  show ?thesis
    using r domainstatus_from_opensearch_Inr(2) [OF r] domainstatus_from_opensearch_Inr(3) [OF r]
      domainstatus_from_opensearch_Inr(4) [OF r] domainstatus_from_opensearch_Inr(5) [OF r]
      domainstatus_from_opensearch_Inr(6) [OF r] PRef
    by auto
qed (use assms in simp_all)




subsection \<open>The compatible-versions list\<close>







subsection \<open>What the translators do to the store\<close>



subsection \<open>The keyword arguments of create-domain\<close>

lemma create_domain_kwargs_Inr:
  "create_domain_kwargs h req = Inr (h1, kwargs) \<longleftrightarrow>
     (\<exists>version cluster_config.
        as_opt_str (elasticsearch_version req) = Inr version \<and>
        clusterconfig_to_opensearch h (elasticsearch_cluster_config req) = Inr (h1, cluster_config) \<and>
        kwargs = filter (\<lambda>(key, value). value \<noteq> PNone)
          (create_domain_all_kwargs req (of_opt_str (version_to_opensearch version))
             cluster_config))"
  by (auto simp: create_domain_kwargs_def err_bind_eq_Inr)

lemma create_domain_kwargs_typed:
  assumes "is_opt_str (elasticsearch_version req)"
    and "opt_clusterconfig_typed h (elasticsearch_cluster_config req)"
  shows "\<exists>h1 kwargs. create_domain_kwargs h req = Inr (h1, kwargs)"
proof -
  obtain version where "as_opt_str (elasticsearch_version req) = Inr version"
    using assms(1) is_opt_str_iff by blast
  moreover obtain h1 where
    "clusterconfig_to_opensearch h (elasticsearch_cluster_config req) =
       Inr (h1, elasticsearch_cluster_config req)"
    using clusterconfig_to_opensearch_typed [OF assms(2)] by blast
  ultimately show ?thesis
    unfolding create_domain_kwargs_Inr by blast
qed

lemma create_domain_kwargs_no_None:
  assumes "create_domain_kwargs h req = Inr (h1, kwargs)"
  shows "\<forall>(key, value) \<in> set kwargs. value \<noteq> PNone"
proof -
  obtain xs where "kwargs = filter (\<lambda>(key, value). value \<noteq> PNone) xs"
    using assms unfolding create_domain_kwargs_Inr by blast
  then show ?thesis by auto
qed

lemma map_of_all_kwargs_EngineVersion:
  "map_of (create_domain_all_kwargs req ev cc) ''EngineVersion'' = Some ev"
  by (simp add: create_domain_all_kwargs_def)

lemma all_kwargs_EngineVersion_only:
  "(''EngineVersion'', v) \<in> set (create_domain_all_kwargs req ev cc) \<Longrightarrow> v = ev"
  by (simp add: create_domain_all_kwargs_def)

lemma map_of_filter_EngineVersion:
  "map_of (filter (\<lambda>(key, value). value \<noteq> PNone) (create_domain_all_kwargs req ev cc))
     ''EngineVersion'' = (if ev = PNone then None else Some ev)"
proof (cases "ev = PNone")
  case True
  have "map_of (filter (\<lambda>(key, value). value \<noteq> PNone) (create_domain_all_kwargs req ev cc))
     ''EngineVersion'' = None"
  proof (rule ccontr)
    assume "map_of (filter (\<lambda>(key, value). value \<noteq> PNone)
        (create_domain_all_kwargs req ev cc)) ''EngineVersion'' \<noteq> None"
    then obtain v where "map_of (filter (\<lambda>(key, value). value \<noteq> PNone)
        (create_domain_all_kwargs req ev cc)) ''EngineVersion'' = Some v"
      by blast
    then have "(''EngineVersion'', v) \<in> set (filter (\<lambda>(key, value). value \<noteq> PNone)
        (create_domain_all_kwargs req ev cc))"
      by (rule map_of_SomeD)
    then have "(''EngineVersion'', v) \<in> set (create_domain_all_kwargs req ev cc)"
      and "v \<noteq> PNone"
      by simp_all
    then show False using all_kwargs_EngineVersion_only True by blast
  qed
  then show ?thesis using True by simp
next
  case False
  then have "map_of (filter (\<lambda>(key, value). value \<noteq> PNone)
      (create_domain_all_kwargs req ev cc)) ''EngineVersion'' = Some ev"
    using map_of_filter_in [OF map_of_all_kwargs_EngineVersion,
        of "\<lambda>key value. value \<noteq> PNone" ev req cc]
    by simp
  then show ?thesis using False by simp
qed

lemma create_domain_kwargs_EngineVersion:
  assumes "create_domain_kwargs h req = Inr (h1, kwargs)"
  shows "\<exists>version. as_opt_str (elasticsearch_version req) = Inr version \<and>
     map_of kwargs ''EngineVersion'' =
       (case version_to_opensearch version of None \<Rightarrow> None | Some v \<Rightarrow> Some (PStr v))"
proof -
  obtain version cluster_config where
    v: "as_opt_str (elasticsearch_version req) = Inr version"
    and kw: "kwargs = filter (\<lambda>(key, value). value \<noteq> PNone)
          (create_domain_all_kwargs req (of_opt_str (version_to_opensearch version))
             cluster_config)"
    using assms unfolding create_domain_kwargs_Inr by blast
  have "map_of kwargs ''EngineVersion'' =
      (case version_to_opensearch version of None \<Rightarrow> None | Some v \<Rightarrow> Some (PStr v))"
    unfolding kw map_of_filter_EngineVersion
    by (simp add: of_opt_str_def split: option.splits)
  then show ?thesis using v by blast
qed

lemma create_elasticsearch_domain_after_kwargs:
  assumes "create_domain_kwargs h req = Inr (h1, kwargs)"
  shows "create_elasticsearch_domain client pub h req =
     err_bind (create_domain client h1 kwargs) (\<lambda>(h2, response).
     err_bind (dict_item response ''DomainStatus'') (\<lambda>domain_status.
     err_bind (record_event pub (EVENT_ES_CREATE_DOMAIN pub) (domain_name req)) (\<lambda>_.
     err_bind (domainstatus_from_opensearch h2 domain_status) (\<lambda>(h3, status).
     Inr (h3, [(''DomainStatus'', status)])))))"
  by (simp add: create_elasticsearch_domain_def assms err_bind_Inr)

text \<open>At the top level the filter of line 212 does its work: the keyword arguments
  are built, none of their items has the value None, and a request without
  \<open>elasticsearch_version\<close> gives keyword arguments without the key \<open>EngineVersion\<close>.\<close>

lemma create_domain_kwargs_top_level:
  assumes "is_opt_str (elasticsearch_version req)"
    and "opt_clusterconfig_typed h (elasticsearch_cluster_config req)"
  shows "\<exists>h1 kwargs. create_domain_kwargs h req = Inr (h1, kwargs) \<and>
     (\<forall>(key, value) \<in> set kwargs. value \<noteq> PNone) \<and>
     (elasticsearch_version req = PNone \<longrightarrow> ''EngineVersion'' \<notin> fst ` set kwargs)"
proof -
  obtain h1 kwargs where kw: "create_domain_kwargs h req = Inr (h1, kwargs)"
    using create_domain_kwargs_typed [OF assms] by blast
  have no_None: "\<forall>(key, value) \<in> set kwargs. value \<noteq> PNone"
    using kw by (rule create_domain_kwargs_no_None)
  have version: "elasticsearch_version req = PNone \<longrightarrow> ''EngineVersion'' \<notin> fst ` set kwargs"
  proof
    assume "elasticsearch_version req = PNone"
    then have "map_of kwargs ''EngineVersion'' = None"
      using create_domain_kwargs_EngineVersion [OF kw]
      by (auto simp: version_to_opensearch_def)
    then show "''EngineVersion'' \<notin> fst ` set kwargs"
      by (simp add: map_of_eq_None_iff)
  qed
  show ?thesis using kw no_None version by blast
qed

lemma minimal_request_kwargs:
  "create_domain_kwargs empty_store minimal_request =
     Inr (empty_store, [(''DomainName'', PStr ''logs'')])"
  by (simp add: create_domain_kwargs_def create_domain_all_kwargs_def minimal_request_def
      err_bind_def clusterconfig_to_opensearch_def of_opt_str_def version_to_opensearch_def)

lemma versioned_request_kwargs:
  "create_domain_kwargs empty_store versioned_request =
     Inr (empty_store, [(''DomainName'', PStr ''logs''),
                        (''EngineVersion'', PStr ''Elasticsearch_7.10'')])"
  by (simp add: create_domain_kwargs_def create_domain_all_kwargs_def versioned_request_def
      minimal_request_def err_bind_def clusterconfig_to_opensearch_def of_opt_str_def
      version_to_opensearch_def startswith_def)

text \<open>
  C5 fails inside the cluster config. A request that names a domain and passes the
  cluster config \<open>{"InstanceCount": 1}\<close> is well typed. Lines 126-130 assign the three
  instance-type keys of that cluster config whatever \<^verbatim>\<open>get\<close> returned, so the object
  holds \<open>InstanceType\<close>, \<open>DedicatedMasterType\<close> and \<open>WarmType\<close> bound to None; the filter
  of line 212 looks at the top-level values only and keeps \<open>ClusterConfig\<close>, which is
  not None. The backend is called with keyword arguments whose cluster config binds
  three absent fields to None, and a backend that does not accept None raises.
\<close>

theorem create_domain_sends_None_inside_cluster_config:
  "is_opt_str (elasticsearch_version clustered_request) \<and>
   opt_clusterconfig_typed sizing_store (elasticsearch_cluster_config clustered_request) \<and>
   create_domain_kwargs sizing_store clustered_request =
     Inr (empty_store(0 := [(''InstanceCount'', PInt 1), (''InstanceType'', PNone),
                            (''DedicatedMasterType'', PNone), (''WarmType'', PNone)]),
          [(''DomainName'', PStr ''logs''), (''ClusterConfig'', PRef 0)]) \<and>
   create_elasticsearch_domain strict_client example_publisher sizing_store clustered_request =
     Inl (External ''ParamValidationError: None in ClusterConfig'')"
proof -
  have typed: "is_opt_str (elasticsearch_version clustered_request)"
    "opt_clusterconfig_typed sizing_store (elasticsearch_cluster_config clustered_request)"
    by (simp_all add: clustered_request_def minimal_request_def sizing_store_def
        empty_store_def clusterconfig_typed_def dict_get_def)
  have to: "clusterconfig_to_opensearch sizing_store (PRef 0) =
     Inr (empty_store(0 := [(''InstanceCount'', PInt 1), (''InstanceType'', PNone),
                            (''DedicatedMasterType'', PNone), (''WarmType'', PNone)]),
          PRef 0)"
    by (simp add: clusterconfig_to_opensearch_def assign_instancetype_def err_bind_def
        sizing_store_def empty_store_def dict_get_def dict_set_def of_opt_str_def
        instancetype_to_opensearch_def)
  have kwargs: "create_domain_kwargs sizing_store clustered_request =
     Inr (empty_store(0 := [(''InstanceCount'', PInt 1), (''InstanceType'', PNone),
                            (''DedicatedMasterType'', PNone), (''WarmType'', PNone)]),
          [(''DomainName'', PStr ''logs''), (''ClusterConfig'', PRef 0)])"
    by (simp add: create_domain_kwargs_def create_domain_all_kwargs_def
        clustered_request_def minimal_request_def to err_bind_def of_opt_str_def
        version_to_opensearch_def)
  have "create_elasticsearch_domain strict_client example_publisher sizing_store
      clustered_request = Inl (External ''ParamValidationError: None in ClusterConfig'')"
    by (simp add: create_elasticsearch_domain_after_kwargs [OF kwargs] strict_client_def
        dict_get_def err_bind_def)
  then show ?thesis using typed kwargs by (intro conjI)
qed

subsection \<open>Create-domain end to end\<close>

lemma version_from_opensearch_7_10:
  "version_from_opensearch (Some ''Elasticsearch_7.10'') = Inr (Some ''7.10'')"
  by (simp add: version_from_opensearch_def list_item_def startswith_def)

lemma dict_get_Some: "map_of d k = Some v \<Longrightarrow> dict_get d k = v"
  by (simp add: dict_get_def)

lemma domainstatus_from_opensearch_opt_typed:
  assumes "opt_domainstatus_typed h v"
  shows "\<exists>h'. domainstatus_from_opensearch h v = Inr (h', v)"
  using domainstatus_in_place [OF assms] by blast

text \<open>
  C6. A create-domain request with \<open>ElasticsearchVersion = "7.10"\<close> calls the backend
  with \<open>EngineVersion = "Elasticsearch_7.10"\<close>. When the backend answers with a
  well-typed domain status that repeats the engine version it was given, and the
  event is published, the operation returns that status with
  \<open>ElasticsearchVersion = "7.10"\<close> and without the key \<open>EngineVersion\<close>.
\<close>

theorem create_domain_translates_version_both_ways:
  assumes ver: "elasticsearch_version req = PStr ''7.10''"
    and cc: "opt_clusterconfig_typed h (elasticsearch_cluster_config req)"
    and ev: "record_event pub (EVENT_ES_CREATE_DOMAIN pub) (domain_name req) = Inr ()"
  shows "\<exists>h1 kwargs. create_domain_kwargs h req = Inr (h1, kwargs) \<and>
     map_of kwargs ''EngineVersion'' = Some (PStr ''Elasticsearch_7.10'') \<and>
     (\<forall>h2 response a.
        create_domain client h1 kwargs = Inr (h2, response) \<and>
        dict_item response ''DomainStatus'' = Inr (PRef a) \<and>
        dict_get (h2 a) ''EngineVersion'' = dict_get kwargs ''EngineVersion'' \<and>
        domainstatus_typed h2 (h2 a) \<longrightarrow>
        (\<exists>h3. create_elasticsearch_domain client pub h req =
                Inr (h3, [(''DomainStatus'', PRef a)]) \<and>
              map_of (h3 a) ''ElasticsearchVersion'' = Some (PStr ''7.10'') \<and>
              map_of (h3 a) ''EngineVersion'' = None))"
proof -
  have "is_opt_str (elasticsearch_version req)" using ver by simp
  then obtain h1 kwargs where kw: "create_domain_kwargs h req = Inr (h1, kwargs)"
    using create_domain_kwargs_typed cc by blast
  have sent: "map_of kwargs ''EngineVersion'' = Some (PStr ''Elasticsearch_7.10'')"
    using create_domain_kwargs_EngineVersion [OF kw] ver
    by (auto simp: version_to_opensearch_def startswith_def)
  have returned: "\<exists>h3. create_elasticsearch_domain client pub h req =
                Inr (h3, [(''DomainStatus'', PRef a)]) \<and>
              map_of (h3 a) ''ElasticsearchVersion'' = Some (PStr ''7.10'') \<and>
              map_of (h3 a) ''EngineVersion'' = None"
    if backend: "create_domain client h1 kwargs = Inr (h2, response)"
      and st: "dict_item response ''DomainStatus'' = Inr (PRef a)"
      and echo: "dict_get (h2 a) ''EngineVersion'' = dict_get kwargs ''EngineVersion''"
      and typed: "domainstatus_typed h2 (h2 a)"
    for h2 response a
  proof -
    obtain h3 where r: "domainstatus_from_opensearch h2 (PRef a) = Inr (h3, PRef a)"
      using domainstatus_from_opensearch_typed [OF typed] by blast
    have "dict_get (h2 a) ''EngineVersion'' = PStr ''Elasticsearch_7.10''"
      using echo dict_get_Some [OF sent] by simp
    then have "map_of (h3 a) ''ElasticsearchVersion'' = Some (PStr ''7.10'')"
      using domainstatus_from_opensearch_Inr(5) [OF r] version_from_opensearch_7_10
      by (auto simp: of_opt_str_def)
    moreover have "map_of (h3 a) ''EngineVersion'' = None"
      using domainstatus_from_opensearch_Inr(3) [OF r] .
    moreover have "create_elasticsearch_domain client pub h req =
        Inr (h3, [(''DomainStatus'', PRef a)])"
      by (simp add: create_elasticsearch_domain_after_kwargs [OF kw] backend st ev r
          err_bind_Inr)
    ultimately show ?thesis by blast
  qed
  show ?thesis
  proof (rule exI [of _ h1], rule exI [of _ kwargs], intro conjI allI impI)
    show "create_domain_kwargs h req = Inr (h1, kwargs)" by (rule kw)
    show "map_of kwargs ''EngineVersion'' = Some (PStr ''Elasticsearch_7.10'')" by (rule sent)
  next
    fix h2 response a
    assume "create_domain client h1 kwargs = Inr (h2, response) \<and>
        dict_item response ''DomainStatus'' = Inr (PRef a) \<and>
        dict_get (h2 a) ''EngineVersion'' = dict_get kwargs ''EngineVersion'' \<and>
        domainstatus_typed h2 (h2 a)"
    then show "\<exists>h3. create_elasticsearch_domain client pub h req =
                Inr (h3, [(''DomainStatus'', PRef a)]) \<and>
              map_of (h3 a) ''ElasticsearchVersion'' = Some (PStr ''7.10'') \<and>
              map_of (h3 a) ''EngineVersion'' = None"
      using returned by blast
  qed
qed

theorem create_domain_translates_version_both_ways_witness:
  "elasticsearch_version versioned_request = PStr ''7.10'' \<and>
   opt_clusterconfig_typed empty_store (elasticsearch_cluster_config versioned_request) \<and>
   record_event example_publisher (EVENT_ES_CREATE_DOMAIN example_publisher)
     (domain_name versioned_request) = Inr () \<and>
   create_domain_kwargs empty_store versioned_request =
     Inr (empty_store, [(''DomainName'', PStr ''logs''),
                        (''EngineVersion'', PStr ''Elasticsearch_7.10'')]) \<and>
   (\<exists>h3. create_elasticsearch_domain example_client example_publisher empty_store
            versioned_request = Inr (h3, [(''DomainStatus'', PRef 1)]) \<and>
         map_of (h3 1) ''ElasticsearchVersion'' = Some (PStr ''7.10'') \<and>
         map_of (h3 1) ''EngineVersion'' = None)"
proof -
  let ?kwargs = "[(''DomainName'', PStr ''logs''),
                  (''EngineVersion'', PStr ''Elasticsearch_7.10'')]"
  let ?h2 = "empty_store(1 := [(''DomainName'', PStr ''logs''),
                               (''EngineVersion'', PStr ''Elasticsearch_7.10'')])"
  have ver: "elasticsearch_version versioned_request = PStr ''7.10''"
    and cc: "opt_clusterconfig_typed empty_store
      (elasticsearch_cluster_config versioned_request)"
    and ev: "record_event example_publisher (EVENT_ES_CREATE_DOMAIN example_publisher)
      (domain_name versioned_request) = Inr ()"
    by (simp_all add: versioned_request_def minimal_request_def record_event_def
        example_publisher_def err_bind_def)
  obtain h1 kwargs where
    kw: "create_domain_kwargs empty_store versioned_request = Inr (h1, kwargs)"
    and returned: "\<forall>h2 response a.
        create_domain example_client h1 kwargs = Inr (h2, response) \<and>
        dict_item response ''DomainStatus'' = Inr (PRef a) \<and>
        dict_get (h2 a) ''EngineVersion'' = dict_get kwargs ''EngineVersion'' \<and>
        domainstatus_typed h2 (h2 a) \<longrightarrow>
        (\<exists>h3. create_elasticsearch_domain example_client example_publisher empty_store
                 versioned_request = Inr (h3, [(''DomainStatus'', PRef a)]) \<and>
              map_of (h3 a) ''ElasticsearchVersion'' = Some (PStr ''7.10'') \<and>
              map_of (h3 a) ''EngineVersion'' = None)"
    using create_domain_translates_version_both_ways
      [OF ver cc ev, of example_client]
    by (elim exE conjE)
  have h1: "h1 = empty_store" and kwargs: "kwargs = ?kwargs"
    using kw versioned_request_kwargs by simp_all
  have backend: "create_domain example_client h1 kwargs =
      Inr (?h2, [(''DomainStatus'', PRef 1)])"
    unfolding h1 kwargs by (simp add: example_client_def dict_get_def)
  have st: "dict_item [(''DomainStatus'', PRef 1)] ''DomainStatus'' = Inr (PRef 1)"
    by (simp add: dict_item_def)
  have echo: "dict_get (?h2 1) ''EngineVersion'' = dict_get kwargs ''EngineVersion''"
    unfolding kwargs by (simp add: dict_get_def)
  have typed: "domainstatus_typed ?h2 (?h2 1)"
    by (simp add: domainstatus_typed_def dict_get_def)
  have "\<exists>h3. create_elasticsearch_domain example_client example_publisher empty_store
                 versioned_request = Inr (h3, [(''DomainStatus'', PRef 1)]) \<and>
              map_of (h3 1) ''ElasticsearchVersion'' = Some (PStr ''7.10'') \<and>
              map_of (h3 1) ''EngineVersion'' = None"
    using returned [rule_format, of ?h2 "[(''DomainStatus'', PRef 1)]" 1]
      backend st echo typed by blast
  then show ?thesis using ver cc ev versioned_request_kwargs by blast
qed

subsection \<open>Event publication, and list-versions\<close>

text \<open>
  C4, as stated, fails. With a backend whose calls succeed and a publisher whose sink
  raises, create-domain and delete-domain raise what the sink raised: no handler
  surrounds lines 217-220 and 235-238.
\<close>

theorem operations_fail_when_publish_fails:
  "create_domain example_client empty_store [(''DomainName'', PStr ''logs'')] =
     Inr (empty_store(1 := [(''DomainName'', PStr ''logs''), (''EngineVersion'', PNone)]),
          [(''DomainStatus'', PRef 1)]) \<and>
   create_elasticsearch_domain example_client failing_publisher empty_store minimal_request =
     Inl (External ''event sink unreachable'') \<and>
   delete_domain example_client empty_store [(''DomainName'', PStr ''logs'')] =
     Inr (empty_store(1 := [(''DomainName'', PStr ''logs''),
                            (''EngineVersion'', PStr ''OpenSearch_1.0''),
                            (''Deleted'', PBool True)]),
          [(''DomainStatus'', PRef 1)]) \<and>
   delete_elasticsearch_domain example_client failing_publisher empty_store (PStr ''logs'') =
     Inl (External ''event sink unreachable'')"
proof (intro conjI)
  show "create_domain example_client empty_store [(''DomainName'', PStr ''logs'')] =
     Inr (empty_store(1 := [(''DomainName'', PStr ''logs''), (''EngineVersion'', PNone)]),
          [(''DomainStatus'', PRef 1)])"
    by (simp add: example_client_def dict_get_def)
  show "create_elasticsearch_domain example_client failing_publisher empty_store
      minimal_request = Inl (External ''event sink unreachable'')"
    by (simp add: create_elasticsearch_domain_after_kwargs [OF minimal_request_kwargs]
        example_client_def failing_publisher_def record_event_def err_bind_def dict_item_def)
  show "delete_domain example_client empty_store [(''DomainName'', PStr ''logs'')] =
     Inr (empty_store(1 := [(''DomainName'', PStr ''logs''),
                            (''EngineVersion'', PStr ''OpenSearch_1.0''),
                            (''Deleted'', PBool True)]),
          [(''DomainStatus'', PRef 1)])"
    by (simp add: example_client_def dict_get_def)
  show "delete_elasticsearch_domain example_client failing_publisher empty_store
      (PStr ''logs'') = Inl (External ''event sink unreachable'')"
    by (simp add: delete_elasticsearch_domain_def example_client_def failing_publisher_def
        record_event_def err_bind_def dict_item_def)
qed

text \<open>
  C4, amended. For create-domain and delete-domain, once the backend call has
  succeeded and its response has a \<open>DomainStatus\<close>, the outcome follows the
  publication of the event: if building the payload or firing the event raises, the
  operation raises the same exception; if the event is published and the status is
  well typed, the operation returns the translated status.
\<close>

theorem publish_outcome_decides_create_and_delete:
  "(create_domain_kwargs h req = Inr (h1, kwargs) \<and>
    create_domain client h1 kwargs = Inr (h2, response) \<and>
    dict_item response ''DomainStatus'' = Inr domain_status \<longrightarrow>
      (\<forall>e. record_event pub (EVENT_ES_CREATE_DOMAIN pub) (domain_name req) = Inl e \<longrightarrow>
           create_elasticsearch_domain client pub h req = Inl e) \<and>
      (record_event pub (EVENT_ES_CREATE_DOMAIN pub) (domain_name req) = Inr () \<and>
       opt_domainstatus_typed h2 domain_status \<longrightarrow>
           (\<exists>h3. domainstatus_from_opensearch h2 domain_status = Inr (h3, domain_status) \<and>
                 create_elasticsearch_domain client pub h req =
                   Inr (h3, [(''DomainStatus'', domain_status)])))) \<and>
   (delete_domain client h [(''DomainName'', name)] = Inr (g1, answer) \<and>
    dict_item answer ''DomainStatus'' = Inr deleted_status \<longrightarrow>
      (\<forall>e. record_event pub (EVENT_ES_DELETE_DOMAIN pub) name = Inl e \<longrightarrow>
           delete_elasticsearch_domain client pub h name = Inl e) \<and>
      (record_event pub (EVENT_ES_DELETE_DOMAIN pub) name = Inr () \<and>
       opt_domainstatus_typed g1 deleted_status \<longrightarrow>
           (\<exists>g2. domainstatus_from_opensearch g1 deleted_status = Inr (g2, deleted_status) \<and>
                 delete_elasticsearch_domain client pub h name =
                   Inr (g2, [(''DomainStatus'', deleted_status)]))))"
proof (intro conjI impI allI; (elim conjE)?)
  assume kw: "create_domain_kwargs h req = Inr (h1, kwargs)"
    and backend: "create_domain client h1 kwargs = Inr (h2, response)"
    and st: "dict_item response ''DomainStatus'' = Inr domain_status"
  note unfolded = create_elasticsearch_domain_after_kwargs [OF kw, of client pub]
  {
    fix e
    assume "record_event pub (EVENT_ES_CREATE_DOMAIN pub) (domain_name req) = Inl e"
    then show "create_elasticsearch_domain client pub h req = Inl e"
      by (simp add: unfolded backend st err_bind_Inr err_bind_Inl)
  }
  {
    assume ev: "record_event pub (EVENT_ES_CREATE_DOMAIN pub) (domain_name req) = Inr ()"
      and typed: "opt_domainstatus_typed h2 domain_status"
    obtain h3 where r: "domainstatus_from_opensearch h2 domain_status = Inr (h3, domain_status)"
      using domainstatus_from_opensearch_opt_typed [OF typed] by blast
    have "create_elasticsearch_domain client pub h req =
        Inr (h3, [(''DomainStatus'', domain_status)])"
      by (simp add: unfolded backend st ev r err_bind_Inr)
    then show "\<exists>h3. domainstatus_from_opensearch h2 domain_status = Inr (h3, domain_status) \<and>
        create_elasticsearch_domain client pub h req =
          Inr (h3, [(''DomainStatus'', domain_status)])"
      using r by blast
  }
next
  assume backend: "delete_domain client h [(''DomainName'', name)] = Inr (g1, answer)"
    and st: "dict_item answer ''DomainStatus'' = Inr deleted_status"
  {
    fix e
    assume "record_event pub (EVENT_ES_DELETE_DOMAIN pub) name = Inl e"
    then show "delete_elasticsearch_domain client pub h name = Inl e"
      by (simp add: delete_elasticsearch_domain_def backend st err_bind_Inr err_bind_Inl)
  }
  {
    assume ev: "record_event pub (EVENT_ES_DELETE_DOMAIN pub) name = Inr ()"
      and typed: "opt_domainstatus_typed g1 deleted_status"
    obtain g2 where r: "domainstatus_from_opensearch g1 deleted_status = Inr (g2, deleted_status)"
      using domainstatus_from_opensearch_opt_typed [OF typed] by blast
    have "delete_elasticsearch_domain client pub h name =
        Inr (g2, [(''DomainStatus'', deleted_status)])"
      by (simp add: delete_elasticsearch_domain_def backend st ev r err_bind_Inr)
    then show "\<exists>g2. domainstatus_from_opensearch g1 deleted_status = Inr (g2, deleted_status) \<and>
        delete_elasticsearch_domain client pub h name =
          Inr (g2, [(''DomainStatus'', deleted_status)])"
      using r by blast
  }
qed

text \<open>Whatever the backend answers, a request for the first page (no \<open>next_token\<close>)
  is answered with \<open>NextToken = None\<close>.\<close>

lemma list_elasticsearch_versions_first_page:
  assumes "list_elasticsearch_versions client h max_results PNone = Inr (h1, response)"
  shows "dict_item response ''NextToken'' = Inr PNone"
  using assms
  by (auto simp: list_elasticsearch_versions_def err_bind_eq_Inr dict_item_def)

text \<open>
  C7. The list-versions operation should translate every entry of \<open>Versions\<close> and
  pass the \<open>NextToken\<close> of the backend response through. The versions are translated,
  but line 296 looks up the request's \<open>next_token\<close> as a key of the response: for a
  first-page request the backend's \<open>NextToken = "page-2"\<close> is returned as None.
\<close>

theorem list_versions_next_token_is_lost:
  "list_versions example_client empty_store [] =
     Inr (empty_store,
          [(''Versions'', PList [PStr ''Elasticsearch_7.10'', PStr ''OpenSearch_1.0'']),
           (''NextToken'', PStr ''page-2'')]) \<and>
   list_elasticsearch_versions example_client empty_store PNone PNone =
     Inr (empty_store,
          [(''ElasticsearchVersions'', PList [PStr ''7.10'', PStr ''OpenSearch_1.0'']),
           (''NextToken'', PNone)])"
  by (simp add: list_elasticsearch_versions_def example_client_def err_bind_def
      dict_item_def version_from_opensearch_def list_item_def startswith_def of_opt_str_def)

theorem publish_outcome_decides_create_and_delete_witness:
  "create_elasticsearch_domain example_client failing_publisher empty_store minimal_request =
     Inl (External ''event sink unreachable'') \<and>
   (\<exists>h3. create_elasticsearch_domain example_client example_publisher empty_store
            minimal_request = Inr (h3, [(''DomainStatus'', PRef 1)])) \<and>
   delete_elasticsearch_domain example_client failing_publisher empty_store (PStr ''logs'') =
     Inl (External ''event sink unreachable'') \<and>
   (\<exists>g2. delete_elasticsearch_domain example_client example_publisher empty_store
            (PStr ''logs'') = Inr (g2, [(''DomainStatus'', PRef 1)]))"
proof -
  let ?h2 = "empty_store(1 := [(''DomainName'', PStr ''logs''), (''EngineVersion'', PNone)])"
  let ?g1 = "empty_store(1 := [(''DomainName'', PStr ''logs''),
                              (''EngineVersion'', PStr ''OpenSearch_1.0''),
                              (''Deleted'', PBool True)])"
  let ?response = "[(''DomainStatus'', PRef 1)]"
  have created: "create_domain example_client empty_store [(''DomainName'', PStr ''logs'')] =
      Inr (?h2, ?response)"
    and deleted: "delete_domain example_client empty_store [(''DomainName'', PStr ''logs'')] =
      Inr (?g1, ?response)"
    by (simp_all add: example_client_def dict_get_def)
  have st: "dict_item ?response ''DomainStatus'' = Inr (PRef 1)"
    by (simp add: dict_item_def)
  have typed: "opt_domainstatus_typed ?h2 (PRef 1)" "opt_domainstatus_typed ?g1 (PRef 1)"
    by (simp_all add: domainstatus_typed_def dict_get_def)
  have fails:
    "record_event failing_publisher (EVENT_ES_CREATE_DOMAIN failing_publisher)
       (domain_name minimal_request) = Inl (External ''event sink unreachable'')"
    "record_event failing_publisher (EVENT_ES_DELETE_DOMAIN failing_publisher)
       (PStr ''logs'') = Inl (External ''event sink unreachable'')"
    by (simp_all add: record_event_def failing_publisher_def err_bind_def)
  have publishes:
    "record_event example_publisher (EVENT_ES_CREATE_DOMAIN example_publisher)
       (domain_name minimal_request) = Inr ()"
    "record_event example_publisher (EVENT_ES_DELETE_DOMAIN example_publisher)
       (PStr ''logs'') = Inr ()"
    by (simp_all add: record_event_def example_publisher_def err_bind_def)
  note failing = publish_outcome_decides_create_and_delete
    [where h = empty_store and req = minimal_request and ?h1.0 = empty_store
       and kwargs = "[(''DomainName'', PStr ''logs'')]" and client = example_client
       and ?h2.0 = ?h2 and response = ?response and domain_status = "PRef 1"
       and pub = failing_publisher and name = "PStr ''logs''" and ?g1.0 = ?g1
       and answer = ?response and deleted_status = "PRef 1"]
  note publishing = publish_outcome_decides_create_and_delete
    [where h = empty_store and req = minimal_request and ?h1.0 = empty_store
       and kwargs = "[(''DomainName'', PStr ''logs'')]" and client = example_client
       and ?h2.0 = ?h2 and response = ?response and domain_status = "PRef 1"
       and pub = example_publisher and name = "PStr ''logs''" and ?g1.0 = ?g1
       and answer = ?response and deleted_status = "PRef 1"]
  have 1: "create_elasticsearch_domain example_client failing_publisher empty_store
      minimal_request = Inl (External ''event sink unreachable'')"
    using failing minimal_request_kwargs created st fails(1) by blast
  have 2: "\<exists>h3. create_elasticsearch_domain example_client example_publisher empty_store
            minimal_request = Inr (h3, [(''DomainStatus'', PRef 1)])"
    using publishing minimal_request_kwargs created st publishes(1) typed(1) by blast
  have 3: "delete_elasticsearch_domain example_client failing_publisher empty_store
      (PStr ''logs'') = Inl (External ''event sink unreachable'')"
    using failing deleted st fails(2) by blast
  have 4: "\<exists>g2. delete_elasticsearch_domain example_client example_publisher empty_store
            (PStr ''logs'') = Inr (g2, [(''DomainStatus'', PRef 1)])"
    using publishing deleted st publishes(2) typed(2) by blast
  show ?thesis using 1 2 3 4 by (intro conjI)
qed

end
